theory Spec2Isabelle
  imports Complex_Main "HOL-Library.Multiset" "HOL-Library.Char_ord" "HOL-Library.List_Lexorder"
begin

section \<open>Flag aggregator (flagManager.js, gaze-tracking variant)\<close>

text \<open>
  Flags are the string constants the source pushes onto \<open>newFlags\<close>. The sample is the
  object destructured at the top of \<open>processAnalysis\<close>; \<open>gazeDirection\<close> is a string or
  null (\<open>None\<close>). \<open>Date.now()\<close> is an input of the model. The face count and the
  counter are natural numbers, the brightness a real number.
\<close>

definition FACE_MISSING_THRESHOLD :: nat where
  "FACE_MISSING_THRESHOLD = 3"

definition LOW_LIGHT_THRESHOLD :: real where
  "LOW_LIGHT_THRESHOLD = 50"

record analysis =
  faceCount :: nat
  isRotated :: bool
  isLookingAway :: bool
  gazeDirection :: "string option"
  brightness :: real

record entry_details =
  faceCount :: nat
  isRotated :: bool
  isLookingAway :: bool
  gazeDirection :: "string option"
  brightness :: int

record history_entry =
  timestamp :: nat
  flags :: "string list"
  details :: entry_details

record flag_state =
  currentFlags :: "string list"
  gazeDirection :: "string option"
  consecutiveMissing :: nat
  lastUpdate :: "nat option"
  history :: "history_entry list"

definition createInitialState :: flag_state where
  "createInitialState =
     \<lparr> currentFlags = [], gazeDirection = None, consecutiveMissing = 0,
       lastUpdate = None, history = [] \<rparr>"

text \<open>
  \<open>arraysEqual\<close>: equal lengths, then the default-sorted copies agree at every index.
  The default sort of strings is by code units, which for the ASCII flag names is the
  lexicographic order on \<open>string\<close>.
\<close>

definition arraysEqual :: "string list \<Rightarrow> string list \<Rightarrow> bool" where
  "arraysEqual a b =
     (if length a \<noteq> length b then False
      else (let sortedA = sort a; sortedB = sort b
            in list_all (\<lambda>idx. sortedA ! idx = sortedB ! idx) [0..<length sortedA]))"

text \<open>\<open>Math.round\<close> rounds halves towards positive infinity.\<close>

definition Math_round :: "real \<Rightarrow> int" where
  "Math_round v = \<lfloor>v + 1 / 2\<rfloor>"

text \<open>\<open>gazeDirection || null\<close>: null and the empty string are both falsy.\<close>

definition or_null :: "string option \<Rightarrow> string option" where
  "or_null g = (case g of None \<Rightarrow> None | Some s \<Rightarrow> if s = [] then None else Some s)"

text \<open>\<open>arr.slice(-n)\<close>: the last \<open>n\<close> elements, the whole array when it is shorter.\<close>

definition slice_last :: "nat \<Rightarrow> 'a list \<Rightarrow> 'a list" where
  "slice_last n xs = drop (length xs - n) xs"

text \<open>The three parts of \<open>processAnalysis\<close> before the history update: the
  face-presence chain with its counter and stored gaze direction, then the lighting check.\<close>

definition classify :: "flag_state \<Rightarrow> analysis \<Rightarrow> string list \<times> nat \<times> string option" where
  "classify state a =
     (if analysis.faceCount a > 1 then ([''MULTIPLE_FACES''], 0, None)
      else if analysis.faceCount a = 0 then
        (let consecutiveMissing = consecutiveMissing state + 1
         in (if consecutiveMissing \<ge> FACE_MISSING_THRESHOLD then [''FACE_MISSING''] else [],
             consecutiveMissing, None))
      else
        (if analysis.isRotated a then ([''FACE_ROTATED''], 0, None)
         else if analysis.isLookingAway a then ([''GAZE_AWAY''], 0, analysis.gazeDirection a)
         else ([''FACE_OK''], 0, None)))"

definition newFlags_of :: "flag_state \<Rightarrow> analysis \<Rightarrow> string list" where
  "newFlags_of state a =
     fst (classify state a) @
     (if analysis.brightness a < LOW_LIGHT_THRESHOLD then [''LOW_LIGHT''] else [])"

definition processAnalysis :: "nat \<Rightarrow> flag_state \<Rightarrow> analysis \<Rightarrow> flag_state" where
  "processAnalysis now state a =
     (let newFlags = newFlags_of state a;
          consecutiveMissing = fst (snd (classify state a));
          currentGazeDirection = snd (snd (classify state a));
          flagsChanged = (\<not> arraysEqual (currentFlags state) newFlags \<or>
             (analysis.isLookingAway a \<and> flag_state.gazeDirection state \<noteq> currentGazeDirection));
          history =
            (if flagsChanged then
               slice_last 19 (history state) @
               [\<lparr> timestamp = now, flags = newFlags,
                  details = \<lparr> entry_details.faceCount = analysis.faceCount a,
                              entry_details.isRotated = analysis.isRotated a,
                              entry_details.isLookingAway = analysis.isLookingAway a,
                              entry_details.gazeDirection = or_null (analysis.gazeDirection a),
                              entry_details.brightness = Math_round (analysis.brightness a) \<rparr> \<rparr>]
             else history state)
      in \<lparr> currentFlags = newFlags, gazeDirection = currentGazeDirection,
           consecutiveMissing = consecutiveMissing, lastUpdate = Some now,
           history = history \<rparr>)"

text \<open>Feeding a sequence of (timestamp, sample) pairs through successive calls.\<close>

fun feed :: "flag_state \<Rightarrow> (nat \<times> analysis) list \<Rightarrow> flag_state" where
  "feed state [] = state"
| "feed state ((now, a) # rest) = feed (processAnalysis now state a) rest"

lemma processAnalysis_currentFlags:
  "currentFlags (processAnalysis now state a) = newFlags_of state a"
  by (simp add: processAnalysis_def Let_def)

lemma processAnalysis_consecutiveMissing:
  "consecutiveMissing (processAnalysis now state a) = fst (snd (classify state a))"
  by (simp add: processAnalysis_def Let_def)


subsection \<open>Facts about one call\<close>

lemma arraysEqual_iff_mset: "arraysEqual a b \<longleftrightarrow> mset a = mset b"
proof (cases "length a = length b")
  case False
  then have "mset a \<noteq> mset b" by (metis size_mset)
  with False show ?thesis by (simp add: arraysEqual_def)
next
  case True
  then have len: "length (sort a) = length (sort b)" by simp
  have "arraysEqual a b \<longleftrightarrow> (\<forall>i<length (sort a). sort a ! i = sort b ! i)"
    using True by (auto simp: arraysEqual_def Let_def list_all_iff)
  also have "\<dots> \<longleftrightarrow> sort a = sort b"
    using len by (auto simp: list_eq_iff_nth_eq)
  also have "\<dots> \<longleftrightarrow> mset a = mset b"
    by (metis mset_sort properties_for_sort sorted_sort)
  finally show ?thesis .
qed

lemma low_light_not_in_classify: "''LOW_LIGHT'' \<notin> set (fst (classify state a))"
  by (simp add: classify_def Let_def)

lemma newFlags_distinct: "distinct (newFlags_of state a)"
  by (simp add: newFlags_of_def classify_def Let_def)

lemma processAnalysis_gazeDirection:
  "flag_state.gazeDirection (processAnalysis now state a) = snd (snd (classify state a))"
  by (simp add: processAnalysis_def Let_def)

lemma history_step:
  "history (processAnalysis now state a) =
     (if mset (currentFlags state) \<noteq> mset (newFlags_of state a) \<or>
         (analysis.isLookingAway a \<and> flag_state.gazeDirection state \<noteq> snd (snd (classify state a)))
      then slice_last 19 (history state) @
        [\<lparr> timestamp = now, flags = newFlags_of state a,
           details = \<lparr> entry_details.faceCount = analysis.faceCount a,
                       entry_details.isRotated = analysis.isRotated a,
                       entry_details.isLookingAway = analysis.isLookingAway a,
                       entry_details.gazeDirection = or_null (analysis.gazeDirection a),
                       entry_details.brightness = Math_round (analysis.brightness a) \<rparr> \<rparr>]
      else history state)"
  by (simp add: processAnalysis_def Let_def arraysEqual_iff_mset)

lemma history_step_bound:
  "length (history state) \<le> 20 \<Longrightarrow> length (history (processAnalysis now state a)) \<le> 20"
  by (auto simp: history_step slice_last_def)

subsection \<open>Facts about runs\<close>

lemma feed_history_bound:
  "length (history state) \<le> 20 \<Longrightarrow> length (history (feed state xs)) \<le> 20"
proof (induction xs arbitrary: state)
  case Nil
  then show ?case by simp
next
  case (Cons p xs)
  obtain now a where p: "p = (now, a)" by (cases p)
  from Cons.prems have "length (history (processAnalysis now state a)) \<le> 20"
    by (rule history_step_bound)
  then show ?case unfolding p by (simp add: Cons.IH)
qed

lemma feed_distinct:
  "distinct (currentFlags state) \<Longrightarrow> distinct (currentFlags (feed state xs))"
proof (induction xs arbitrary: state)
  case Nil
  then show ?case by simp
next
  case (Cons p xs)
  obtain now a where p: "p = (now, a)" by (cases p)
  have "distinct (currentFlags (processAnalysis now state a))"
    by (simp add: processAnalysis_currentFlags newFlags_distinct)
  then show ?case unfolding p by (simp add: Cons.IH)
qed

text \<open>Example inputs: a well-lit sample with a given face count, and the five flags of
  the face-presence chain.\<close>

definition sample_with_count :: "nat \<Rightarrow> analysis" where
  "sample_with_count n =
     \<lparr> analysis.faceCount = n, analysis.isRotated = False, analysis.isLookingAway = False,
       analysis.gazeDirection = None, analysis.brightness = 120 \<rparr>"

definition sample_with_brightness :: "real \<Rightarrow> analysis" where
  "sample_with_brightness b =
     \<lparr> analysis.faceCount = 1, analysis.isRotated = False, analysis.isLookingAway = False,
       analysis.gazeDirection = None, analysis.brightness = b \<rparr>"

definition status_flags :: "string list" where
  "status_flags = [''MULTIPLE_FACES'', ''FACE_MISSING'', ''FACE_ROTATED'', ''GAZE_AWAY'', ''FACE_OK'']"

subsection \<open>Debounced FACE_MISSING\<close>

text \<open>
  Claim C4. Feed any six samples whose face counts are 1, 1, 0, 0, 0, 1 (the other fields
  and the timestamps are arbitrary) from the initial state: \<open>FACE_MISSING\<close> is not among
  the flags after the first zero (three samples in) nor after the second (four in), it is
  after the third (five in), and \<open>consecutiveMissing\<close> is 0 after the last sample. In
  general, from any state, a sample with face count 0 increments \<open>consecutiveMissing\<close>
  by one and flags \<open>FACE_MISSING\<close> exactly when the incremented counter is at least 3.
\<close>

theorem C4_face_missing_debounce:
  "(map (analysis.faceCount \<circ> snd) xs = [1, 1, 0, 0, 0, 1] \<longrightarrow>
       ''FACE_MISSING'' \<notin> set (currentFlags (feed createInitialState (take 3 xs)))
     \<and> ''FACE_MISSING'' \<notin> set (currentFlags (feed createInitialState (take 4 xs)))
     \<and> ''FACE_MISSING'' \<in> set (currentFlags (feed createInitialState (take 5 xs)))
     \<and> consecutiveMissing (feed createInitialState (take 5 xs)) = 3
     \<and> consecutiveMissing (feed createInitialState xs) = 0)
   \<and> (analysis.faceCount a = 0 \<longrightarrow>
       consecutiveMissing (processAnalysis now state a) = consecutiveMissing state + 1
     \<and> (''FACE_MISSING'' \<in> set (currentFlags (processAnalysis now state a))
          \<longleftrightarrow> consecutiveMissing state + 1 \<ge> 3))"
proof (intro conjI impI)
  assume "analysis.faceCount a = 0"
  then show "consecutiveMissing (processAnalysis now state a) = consecutiveMissing state + 1"
    by (simp add: processAnalysis_consecutiveMissing classify_def Let_def)
next
  assume "analysis.faceCount a = 0"
  then show "''FACE_MISSING'' \<in> set (currentFlags (processAnalysis now state a))
          \<longleftrightarrow> consecutiveMissing state + 1 \<ge> 3"
    by (simp add: processAnalysis_currentFlags newFlags_of_def classify_def
        FACE_MISSING_THRESHOLD_def Let_def)
next
  assume a: "map (analysis.faceCount \<circ> snd) xs = [1, 1, 0, 0, 0, 1]"
  then obtain p1 p2 p3 p4 p5 p6 where xs: "xs = [p1, p2, p3, p4, p5, p6]"
    and c: "analysis.faceCount (snd p1) = 1" "analysis.faceCount (snd p2) = 1"
       "analysis.faceCount (snd p3) = 0" "analysis.faceCount (snd p4) = 0"
       "analysis.faceCount (snd p5) = 0" "analysis.faceCount (snd p6) = 1"
    by (auto simp: map_eq_Cons_conv)
  have all: "''FACE_MISSING'' \<notin> set (currentFlags (feed createInitialState (take 3 xs)))
     \<and> ''FACE_MISSING'' \<notin> set (currentFlags (feed createInitialState (take 4 xs)))
     \<and> ''FACE_MISSING'' \<in> set (currentFlags (feed createInitialState (take 5 xs)))
     \<and> consecutiveMissing (feed createInitialState (take 5 xs)) = 3
     \<and> consecutiveMissing (feed createInitialState xs) = 0"
    using c by (cases p1; cases p2; cases p3; cases p4; cases p5; cases p6)
      (simp add: xs processAnalysis_currentFlags processAnalysis_consecutiveMissing newFlags_of_def
        classify_def createInitialState_def FACE_MISSING_THRESHOLD_def Let_def)
  from all show "''FACE_MISSING'' \<notin> set (currentFlags (feed createInitialState (take 3 xs)))" by simp
  from all show "''FACE_MISSING'' \<notin> set (currentFlags (feed createInitialState (take 4 xs)))" by simp
  from all show "''FACE_MISSING'' \<in> set (currentFlags (feed createInitialState (take 5 xs)))" by simp
  from all show "consecutiveMissing (feed createInitialState (take 5 xs)) = 3" by simp
  from all show "consecutiveMissing (feed createInitialState xs) = 0" by simp
qed

theorem C4_face_missing_debounce_witness:
  "''FACE_MISSING'' \<notin> set (currentFlags (feed createInitialState
       (take 4 (map (\<lambda>n. (1000, sample_with_count n)) [1, 1, 0, 0, 0, 1]))))
   \<and> ''FACE_MISSING'' \<in> set (currentFlags (feed createInitialState
       (take 5 (map (\<lambda>n. (1000, sample_with_count n)) [1, 1, 0, 0, 0, 1]))))
   \<and> consecutiveMissing (feed createInitialState
       (map (\<lambda>n. (1000, sample_with_count n)) [1, 1, 0, 0, 0, 1])) = 0
   \<and> consecutiveMissing (processAnalysis 1000 createInitialState (sample_with_count 0)) = 1"
  using C4_face_missing_debounce [of "map (\<lambda>n. (1000, sample_with_count n)) [1, 1, 0, 0, 0, 1]"
      "sample_with_count 0" 1000 createInitialState]
  by (simp add: sample_with_count_def createInitialState_def)

subsection \<open>Bounded history\<close>

text \<open>
  Claim C5. After any sequence of samples fed from the initial state the history holds at
  most 20 entries. One more call either leaves the history as it is or appends one entry
  (stamped with the call's time and carrying the new flags) to the last 19 entries of the
  old history, so the oldest entry is the one dropped. When the new flags equal the
  previous \<open>currentFlags\<close> as a set, and the stored gaze direction is unchanged in case the
  sample is looking away, the call appends nothing.
\<close>

theorem C5_history_bounded:
  "length (history (feed createInitialState xs)) \<le> 20
   \<and> (history (processAnalysis now (feed createInitialState xs) a) = history (feed createInitialState xs)
      \<or> (\<exists>e. history (processAnalysis now (feed createInitialState xs) a) =
               drop (length (history (feed createInitialState xs)) - 19) (history (feed createInitialState xs)) @ [e]
             \<and> timestamp e = now
             \<and> flags e = currentFlags (processAnalysis now (feed createInitialState xs) a)))
   \<and> (set (currentFlags (processAnalysis now (feed createInitialState xs) a))
         = set (currentFlags (feed createInitialState xs))
      \<and> (analysis.isLookingAway a \<longrightarrow>
           flag_state.gazeDirection (processAnalysis now (feed createInitialState xs) a)
             = flag_state.gazeDirection (feed createInitialState xs))
      \<longrightarrow> history (processAnalysis now (feed createInitialState xs) a)
            = history (feed createInitialState xs))"
proof (intro conjI impI)
  show "length (history (feed createInitialState xs)) \<le> 20"
    by (rule feed_history_bound) (simp add: createInitialState_def)
next
  show "history (processAnalysis now (feed createInitialState xs) a) = history (feed createInitialState xs)
      \<or> (\<exists>e. history (processAnalysis now (feed createInitialState xs) a) =
               drop (length (history (feed createInitialState xs)) - 19) (history (feed createInitialState xs)) @ [e]
             \<and> timestamp e = now
             \<and> flags e = currentFlags (processAnalysis now (feed createInitialState xs) a))"
    by (simp add: history_step slice_last_def processAnalysis_currentFlags)
next
  let ?s = "feed createInitialState xs"
  assume h: "set (currentFlags (processAnalysis now ?s a)) = set (currentFlags ?s)
      \<and> (analysis.isLookingAway a \<longrightarrow>
           flag_state.gazeDirection (processAnalysis now ?s a) = flag_state.gazeDirection ?s)"
  have d1: "distinct (currentFlags ?s)"
    by (rule feed_distinct) (simp add: createInitialState_def)
  have d2: "distinct (newFlags_of ?s a)" by (rule newFlags_distinct)
  from h have "set (newFlags_of ?s a) = set (currentFlags ?s)"
    by (simp add: processAnalysis_currentFlags)
  with d1 d2 have "mset (currentFlags ?s) = mset (newFlags_of ?s a)"
    by (simp add: set_eq_iff_mset_eq_distinct)
  moreover from h have "analysis.isLookingAway a \<longrightarrow>
      flag_state.gazeDirection ?s = snd (snd (classify ?s a))"
    by (simp add: processAnalysis_gazeDirection)
  ultimately show "history (processAnalysis now ?s a) = history ?s"
    unfolding history_step by auto
qed

theorem C5_history_bounded_witness:
  "length (history (feed createInitialState [(1000, sample_with_count 1)])) \<le> 20
   \<and> history (processAnalysis 1500 (feed createInitialState [(1000, sample_with_count 1)])
        (sample_with_count 1))
     = history (feed createInitialState [(1000, sample_with_count 1)])"
  using C5_history_bounded [of "[(1000, sample_with_count 1)]" 1500 "sample_with_count 1"]
  by (simp add: processAnalysis_currentFlags newFlags_of_def classify_def sample_with_count_def
      LOW_LIGHT_THRESHOLD_def)

subsection \<open>Lighting\<close>

text \<open>
  Claim C9. For every state and sample, \<open>LOW_LIGHT\<close> is among the new flags exactly when
  the brightness is below 50; the new flags are those of the face-presence chain (which
  never contain \<open>LOW_LIGHT\<close>) followed by \<open>LOW_LIGHT\<close> when it applies, whichever branch
  of the chain was taken; a brightness of exactly 50 does not give \<open>LOW_LIGHT\<close>.
\<close>

theorem C9_low_light:
  "(''LOW_LIGHT'' \<in> set (currentFlags (processAnalysis now state a)) \<longleftrightarrow> analysis.brightness a < 50)
   \<and> currentFlags (processAnalysis now state a) =
       fst (classify state a) @ (if analysis.brightness a < 50 then [''LOW_LIGHT''] else [])
   \<and> ''LOW_LIGHT'' \<notin> set (fst (classify state a))
   \<and> (analysis.brightness a = 50 \<longrightarrow> ''LOW_LIGHT'' \<notin> set (currentFlags (processAnalysis now state a)))"
  using low_light_not_in_classify [of state a]
  by (simp add: processAnalysis_currentFlags newFlags_of_def LOW_LIGHT_THRESHOLD_def)

theorem C9_low_light_witness:
  "''LOW_LIGHT'' \<notin> set (currentFlags (processAnalysis 1000 createInitialState (sample_with_brightness 50)))
   \<and> ''LOW_LIGHT'' \<in> set (currentFlags (processAnalysis 1000 createInitialState (sample_with_brightness 49)))"
  using C9_low_light [of 1000 createInitialState "sample_with_brightness 50"]
    C9_low_light [of 1000 createInitialState "sample_with_brightness 49"]
  by (simp add: sample_with_brightness_def)

subsection \<open>Shape of the flag set\<close>

text \<open>
  Claim C10. For every state and sample, the returned \<open>currentFlags\<close> holds at most one of
  \<open>MULTIPLE_FACES\<close>, \<open>FACE_MISSING\<close>, \<open>FACE_ROTATED\<close>, \<open>GAZE_AWAY\<close>, \<open>FACE_OK\<close>, at most one
  \<open>LOW_LIGHT\<close>, nothing else, hence at most two flags; and it is empty exactly when the
  face count is 0, the incremented \<open>consecutiveMissing\<close> is below 3 and the brightness is
  at least 50.
\<close>

theorem C10_flag_set_shape:
  "length (filter (\<lambda>f. f \<in> set status_flags) (currentFlags (processAnalysis now state a))) \<le> 1
   \<and> length (filter (\<lambda>f. f = ''LOW_LIGHT'') (currentFlags (processAnalysis now state a))) \<le> 1
   \<and> set (currentFlags (processAnalysis now state a)) \<subseteq> set status_flags \<union> {''LOW_LIGHT''}
   \<and> length (currentFlags (processAnalysis now state a)) \<le> 2
   \<and> (currentFlags (processAnalysis now state a) = [] \<longleftrightarrow>
        analysis.faceCount a = 0 \<and> consecutiveMissing state + 1 < 3 \<and> analysis.brightness a \<ge> 50)"
  by (simp add: processAnalysis_currentFlags newFlags_of_def classify_def status_flags_def
      LOW_LIGHT_THRESHOLD_def FACE_MISSING_THRESHOLD_def Let_def not_less)

theorem C10_flag_set_shape_witness:
  "currentFlags (processAnalysis 1000 createInitialState
      ((sample_with_brightness 50) \<lparr> analysis.faceCount := 0 \<rparr>)) = []
   \<and> length (currentFlags (processAnalysis 1000 createInitialState
      ((sample_with_brightness 10) \<lparr> analysis.faceCount := 2 \<rparr>))) \<le> 2"
  using C10_flag_set_shape [of 1000 createInitialState
      "(sample_with_brightness 50) \<lparr> analysis.faceCount := 0 \<rparr>"]
    C10_flag_set_shape [of 1000 createInitialState
      "(sample_with_brightness 10) \<lparr> analysis.faceCount := 2 \<rparr>"]
  by (simp add: createInitialState_def sample_with_brightness_def)


section \<open>Geometry estimators (rotationEstimator.js, gazeEstimator.js)\<close>

subsection \<open>Landmark arrays and property reads\<close>

text \<open>
  A landmark is an object with numeric \<open>x\<close> and \<open>y\<close>. An array element may be undefined
  or null (\<open>None\<close>), and so may the array itself. Reading a property of undefined or null
  throws a TypeError, so every read is a computation that may fail (\<open>Inl\<close>); reading an
  index past the end of an array gives undefined. Coordinates, distances and offsets are
  real numbers: the model has the arithmetic of the source without the rounding of
  doubles, and every division it performs is guarded against a zero divisor as in the
  source.
\<close>

datatype js_error = TypeError | Exception string

record landmark =
  lm_x :: real
  lm_y :: real

type_synonym landmarks = "landmark option list option"

definition bindE :: "js_error + 'a \<Rightarrow> ('a \<Rightarrow> js_error + 'b) \<Rightarrow> js_error + 'b" where
  "bindE m f = (case m of Inl e \<Rightarrow> Inl e | Inr v \<Rightarrow> f v)"

definition js_length :: "'a list option \<Rightarrow> js_error + nat" where
  "js_length arr = (case arr of None \<Rightarrow> Inl TypeError | Some xs \<Rightarrow> Inr (length xs))"

definition js_index :: "'a option list option \<Rightarrow> nat \<Rightarrow> js_error + 'a option" where
  "js_index arr i =
     (case arr of None \<Rightarrow> Inl TypeError
      | Some xs \<Rightarrow> Inr (if i < length xs then xs ! i else None))"

definition prop_x :: "landmark option \<Rightarrow> js_error + real" where
  "prop_x p = (case p of None \<Rightarrow> Inl TypeError | Some l \<Rightarrow> Inr (lm_x l))"

definition prop_y :: "landmark option \<Rightarrow> js_error + real" where
  "prop_y p = (case p of None \<Rightarrow> Inl TypeError | Some l \<Rightarrow> Inr (lm_y l))"

subsection \<open>Rotation estimator\<close>

definition NOSE_TIP :: nat where "NOSE_TIP = 1"
definition RIGHT_EAR :: nat where "RIGHT_EAR = 234"
definition LEFT_EAR :: nat where "LEFT_EAR = 454"
definition RIGHT_EYE_OUTER :: nat where "RIGHT_EYE_OUTER = 33"
definition LEFT_EYE_OUTER :: nat where "LEFT_EYE_OUTER = 263"

definition YAW_THRESHOLD :: real where "YAW_THRESHOLD = 0.6"
definition ROLL_THRESHOLD :: real where "ROLL_THRESHOLD = 0.15"

definition distance :: "landmark option \<Rightarrow> landmark option \<Rightarrow> js_error + real" where
  "distance p1 p2 =
     (if p1 = None \<or> p2 = None then Inr 0
      else bindE (prop_x p1) (\<lambda>x1. bindE (prop_x p2) (\<lambda>x2.
           bindE (prop_y p1) (\<lambda>y1. bindE (prop_y p2) (\<lambda>y2.
             (let dx = x1 - x2; dy = y1 - y2 in Inr (sqrt (dx * dx + dy * dy))))))))"

definition estimateYaw :: "landmarks \<Rightarrow> js_error + string" where
  "estimateYaw landmarks =
     bindE (js_index landmarks NOSE_TIP) (\<lambda>nose.
     bindE (js_index landmarks LEFT_EAR) (\<lambda>leftEar.
     bindE (js_index landmarks RIGHT_EAR) (\<lambda>rightEar.
       if nose = None \<or> leftEar = None \<or> rightEar = None then Inr ''CENTER''
       else
         bindE (distance nose leftEar) (\<lambda>leftEarDist.
         bindE (distance nose rightEar) (\<lambda>rightEarDist.
           if leftEarDist = 0 \<or> rightEarDist = 0 then Inr ''CENTER''
           else (let ratio = rightEarDist / leftEarDist
                 in if ratio < YAW_THRESHOLD then Inr ''LEFT''
                    else if ratio > 1 / YAW_THRESHOLD then Inr ''RIGHT''
                    else Inr ''CENTER''))))))"

definition estimateRoll :: "landmarks \<Rightarrow> js_error + string" where
  "estimateRoll landmarks =
     bindE (js_index landmarks LEFT_EYE_OUTER) (\<lambda>leftEye.
     bindE (js_index landmarks RIGHT_EYE_OUTER) (\<lambda>rightEye.
       if leftEye = None \<or> rightEye = None then Inr ''LEVEL''
       else
         bindE (distance leftEye rightEye) (\<lambda>eyeDistance.
           if eyeDistance = 0 then Inr ''LEVEL''
           else
             bindE (prop_y leftEye) (\<lambda>ly. bindE (prop_y rightEye) (\<lambda>ry.
               (let heightDiff = (ly - ry) / eyeDistance
                in if heightDiff > ROLL_THRESHOLD then Inr ''TILTED_RIGHT''
                   else if heightDiff < - ROLL_THRESHOLD then Inr ''TILTED_LEFT''
                   else Inr ''LEVEL''))))))"

record rotation =
  yaw :: string
  roll :: string
  isRotated :: bool

definition analyzeRotation :: "landmarks \<Rightarrow> js_error + rotation" where
  "analyzeRotation landmarks =
     (if landmarks = None then
        Inr \<lparr> yaw = ''UNKNOWN'', roll = ''UNKNOWN'', isRotated = False \<rparr>
      else
        bindE (js_length landmarks) (\<lambda>n.
          if n < 478 then Inr \<lparr> yaw = ''UNKNOWN'', roll = ''UNKNOWN'', isRotated = False \<rparr>
          else
            bindE (estimateYaw landmarks) (\<lambda>yaw.
            bindE (estimateRoll landmarks) (\<lambda>roll.
              Inr \<lparr> yaw = yaw, roll = roll, isRotated = (yaw \<noteq> ''CENTER'') \<rparr>))))"

subsection \<open>Gaze estimator\<close>

definition RIGHT_IRIS :: nat where "RIGHT_IRIS = 468"
definition LEFT_IRIS :: nat where "LEFT_IRIS = 473"
definition RIGHT_EYE_INNER :: nat where "RIGHT_EYE_INNER = 133"
definition RIGHT_EYE_TOP :: nat where "RIGHT_EYE_TOP = 27"
definition RIGHT_EYE_BOTTOM :: nat where "RIGHT_EYE_BOTTOM = 23"
definition LEFT_EYE_INNER :: nat where "LEFT_EYE_INNER = 362"
definition LEFT_EYE_TOP :: nat where "LEFT_EYE_TOP = 257"
definition LEFT_EYE_BOTTOM :: nat where "LEFT_EYE_BOTTOM = 253"

definition HORIZONTAL_THRESHOLD :: real where "HORIZONTAL_THRESHOLD = 0.15"
definition VERTICAL_THRESHOLD :: real where "VERTICAL_THRESHOLD = 0.25"
definition MIN_EYE_HEIGHT_RATIO :: real where "MIN_EYE_HEIGHT_RATIO = 0.02"

definition getNormalizedOffset :: "real \<Rightarrow> real \<Rightarrow> real \<Rightarrow> real" where
  "getNormalizedOffset irisPos minPos maxPos =
     (let center = (minPos + maxPos) / 2;
          range = \<bar>maxPos - minPos\<bar>
      in if range < 0.001 then 0
         else (let offset = ((irisPos - center) / range) * 2
               in max (- 1) (min 1 offset)))"

definition getHorizontalOffset ::
    "landmark option \<Rightarrow> landmark option \<Rightarrow> landmark option \<Rightarrow> js_error + real" where
  "getHorizontalOffset iris inner outer =
     (if iris = None \<or> inner = None \<or> outer = None then Inr 0
      else bindE (prop_x iris) (\<lambda>ix. bindE (prop_x inner) (\<lambda>nx. bindE (prop_x outer) (\<lambda>ox.
             Inr (getNormalizedOffset ix (min nx ox) (max nx ox))))))"

record vertical_reading =
  offset :: real
  valid :: bool

definition getVerticalOffset ::
    "landmark option \<Rightarrow> landmark option \<Rightarrow> landmark option \<Rightarrow> real
       \<Rightarrow> js_error + vertical_reading" where
  "getVerticalOffset iris top' bottom eyeWidth =
     (if iris = None \<or> top' = None \<or> bottom = None then Inr \<lparr> offset = 0, valid = False \<rparr>
      else
        bindE (prop_y bottom) (\<lambda>bottomY. bindE (prop_y top') (\<lambda>topY.
          (let eyeHeight = \<bar>bottomY - topY\<bar>
           in if eyeWidth > 0 \<and> eyeHeight / eyeWidth < MIN_EYE_HEIGHT_RATIO
              then Inr \<lparr> offset = 0, valid = False \<rparr>
              else bindE (prop_y iris) (\<lambda>irisY.
                     Inr \<lparr> offset = getNormalizedOffset irisY (min topY bottomY) (max topY bottomY),
                           valid = True \<rparr>)))))"

text \<open>\<open>p?.x || 0\<close>: 0 for a missing landmark.\<close>

definition opt_x_or_0 :: "landmark option \<Rightarrow> real" where
  "opt_x_or_0 p = (case p of None \<Rightarrow> 0 | Some l \<Rightarrow> lm_x l)"

text \<open>\<open>Array.prototype.join\<close> on strings.\<close>

fun join :: "string \<Rightarrow> string list \<Rightarrow> string" where
  "join sep [] = []"
| "join sep [s] = s"
| "join sep (s # t # rest) = s @ sep @ join sep (t # rest)"

text \<open>The \<open>details\<close> object holds the six offsets and the validity bit; the source formats
  the numbers with \<open>toFixed(3)\<close>, the model keeps them as numbers.\<close>

record gaze_details =
  rightH :: real
  leftH :: real
  avgH :: real
  rightV :: real
  leftV :: real
  avgV :: real
  vValid :: bool

record gaze =
  horizontalGaze :: string
  verticalGaze :: string
  gazeDirection :: string
  isLookingAway :: bool
  confidence :: real
  details :: "gaze_details option"

definition gaze_unknown :: gaze where
  "gaze_unknown =
     \<lparr> horizontalGaze = ''UNKNOWN'', verticalGaze = ''UNKNOWN'', gazeDirection = ''UNKNOWN'',
       isLookingAway = False, confidence = 0, details = None \<rparr>"

definition analyzeGaze :: "landmarks \<Rightarrow> js_error + gaze" where
  "analyzeGaze landmarks =
     (if landmarks = None then Inr gaze_unknown
      else
        bindE (js_length landmarks) (\<lambda>n.
          if n < 478 then Inr gaze_unknown
          else
            bindE (js_index landmarks RIGHT_IRIS) (\<lambda>rightIris.
            bindE (js_index landmarks LEFT_IRIS) (\<lambda>leftIris.
            bindE (js_index landmarks RIGHT_EYE_INNER) (\<lambda>rightInner.
            bindE (js_index landmarks RIGHT_EYE_OUTER) (\<lambda>rightOuter.
            bindE (js_index landmarks RIGHT_EYE_TOP) (\<lambda>rightTop.
            bindE (js_index landmarks RIGHT_EYE_BOTTOM) (\<lambda>rightBottom.
            bindE (js_index landmarks LEFT_EYE_INNER) (\<lambda>leftInner.
            bindE (js_index landmarks LEFT_EYE_OUTER) (\<lambda>leftOuter.
            bindE (js_index landmarks LEFT_EYE_TOP) (\<lambda>leftTop.
            bindE (js_index landmarks LEFT_EYE_BOTTOM) (\<lambda>leftBottom.
              (let rightEyeWidth = \<bar>opt_x_or_0 rightOuter - opt_x_or_0 rightInner\<bar>;
                   leftEyeWidth = \<bar>opt_x_or_0 leftOuter - opt_x_or_0 leftInner\<bar>
               in
            bindE (getHorizontalOffset rightIris rightInner rightOuter) (\<lambda>rightHorizontal.
            bindE (getHorizontalOffset leftIris leftInner leftOuter) (\<lambda>leftHorizontal.
            bindE (getVerticalOffset rightIris rightTop rightBottom rightEyeWidth) (\<lambda>rightVertResult.
            bindE (getVerticalOffset leftIris leftTop leftBottom leftEyeWidth) (\<lambda>leftVertResult.
              (let avgHorizontal = (rightHorizontal + leftHorizontal) / 2;
                   verticalValid = (valid rightVertResult \<and> valid leftVertResult);
                   avgVertical =
                     (if verticalValid then (offset rightVertResult + offset leftVertResult) / 2
                      else 0);
                   horizontalGaze =
                     (if avgHorizontal < - HORIZONTAL_THRESHOLD then ''LEFT''
                      else if avgHorizontal > HORIZONTAL_THRESHOLD then ''RIGHT''
                      else ''CENTER'');
                   verticalGaze =
                     (if verticalValid then
                        (if avgVertical < - VERTICAL_THRESHOLD then ''UP''
                         else if avgVertical > VERTICAL_THRESHOLD then ''DOWN''
                         else ''CENTER'')
                      else ''CENTER'');
                   directions =
                     (if verticalGaze \<noteq> ''CENTER'' then [verticalGaze] else []) @
                     (if horizontalGaze \<noteq> ''CENTER'' then [horizontalGaze] else []);
                   gazeDirection =
                     (if length directions > 0 then join ''_'' directions else ''CENTER'');
                   isLookingAway = (horizontalGaze \<noteq> ''CENTER'' \<or> verticalGaze \<noteq> ''CENTER'');
                   hDiff = \<bar>rightHorizontal - leftHorizontal\<bar>;
                   vDiff =
                     (if verticalValid then \<bar>offset rightVertResult - offset leftVertResult\<bar>
                      else 0);
                   confidence = max 0 (1 - (hDiff + vDiff))
               in Inr \<lparr> horizontalGaze = horizontalGaze, verticalGaze = verticalGaze,
                        gazeDirection = gazeDirection, isLookingAway = isLookingAway,
                        confidence = confidence,
                        details = Some \<lparr> rightH = rightHorizontal, leftH = leftHorizontal,
                          avgH = avgHorizontal, rightV = offset rightVertResult,
                          leftV = offset leftVertResult, avgV = avgVertical,
                          vValid = verticalValid \<rparr> \<rparr>))))))))))))))))))"


subsection \<open>The estimators on full arrays\<close>

text \<open>The Euclidean distance of two landmarks, as a total function, to state what
  \<open>distance\<close> computes when both arguments are present.\<close>

definition euclid :: "landmark \<Rightarrow> landmark \<Rightarrow> real" where
  "euclid p q = sqrt ((lm_x p - lm_x q)\<^sup>2 + (lm_y p - lm_y q)\<^sup>2)"

lemma bindE_Inr [simp]: "bindE (Inr v) f = f v"
  by (simp add: bindE_def)

lemma bindE_Inl [simp]: "bindE (Inl e) f = Inl e"
  by (simp add: bindE_def)

lemma prop_x_Some [simp]: "prop_x (Some l) = Inr (lm_x l)"
  by (simp add: prop_x_def)

lemma prop_y_Some [simp]: "prop_y (Some l) = Inr (lm_y l)"
  by (simp add: prop_y_def)

lemma js_index_Some: "js_index (Some xs) i = Inr (if i < length xs then xs ! i else None)"
  by (simp add: js_index_def)

lemma js_length_Some [simp]: "js_length (Some xs) = Inr (length xs)"
  by (simp add: js_length_def)

lemma distance_Some [simp]: "distance (Some p) (Some q) = Inr (euclid p q)"
  by (simp add: distance_def euclid_def power2_eq_square Let_def)

lemma distance_None [simp]: "distance None q = Inr 0" "distance p None = Inr 0"
  by (simp_all add: distance_def)

lemma euclid_same_y: "lm_y p = lm_y q \<Longrightarrow> euclid p q = \<bar>lm_x p - lm_x q\<bar>"
  by (simp add: euclid_def)

lemma estimateYaw_Some:
  "estimateYaw (Some xs) =
     Inr (case (if 1 < length xs then xs ! 1 else None,
                if 454 < length xs then xs ! 454 else None,
                if 234 < length xs then xs ! 234 else None) of
            (Some nose, Some leftEar, Some rightEar) \<Rightarrow>
              if euclid nose leftEar = 0 \<or> euclid nose rightEar = 0 then ''CENTER''
              else if euclid nose rightEar / euclid nose leftEar < 0.6 then ''LEFT''
              else if euclid nose rightEar / euclid nose leftEar > 1 / 0.6 then ''RIGHT''
              else ''CENTER''
          | _ \<Rightarrow> ''CENTER'')"
  by (simp add: estimateYaw_def js_index_Some NOSE_TIP_def LEFT_EAR_def RIGHT_EAR_def
      YAW_THRESHOLD_def Let_def split: option.splits)

lemma estimateRoll_total: "\<exists>r. estimateRoll (Some xs) = Inr r"
  by (auto simp: estimateRoll_def js_index_Some Let_def)

lemma getHorizontalOffset_total: "\<exists>v. getHorizontalOffset iris inner outer = Inr v"
  by (cases iris; cases inner; cases outer) (simp_all add: getHorizontalOffset_def)

lemma getVerticalOffset_Some:
  "getVerticalOffset (Some i) (Some t) (Some b) w =
     Inr (if w > 0 \<and> \<bar>lm_y b - lm_y t\<bar> / w < 0.02 then \<lparr> offset = 0, valid = False \<rparr>
          else \<lparr> offset = getNormalizedOffset (lm_y i) (min (lm_y t) (lm_y b)) (max (lm_y t) (lm_y b)),
                 valid = True \<rparr>)"
proof (cases "w > 0 \<and> \<bar>lm_y b - lm_y t\<bar> / w < 0.02")
  case True
  then have "w > 0 \<and> \<bar>lm_y b - lm_y t\<bar> / w < MIN_EYE_HEIGHT_RATIO"
    by (simp add: MIN_EYE_HEIGHT_RATIO_def)
  then have "getVerticalOffset (Some i) (Some t) (Some b) w = Inr \<lparr> offset = 0, valid = False \<rparr>"
    unfolding getVerticalOffset_def Let_def by (simp del: divide_less_eq_numeral1)
  with True show ?thesis by presburger
next
  case False
  then have "\<not> (w > 0 \<and> \<bar>lm_y b - lm_y t\<bar> / w < MIN_EYE_HEIGHT_RATIO)"
    by (simp add: MIN_EYE_HEIGHT_RATIO_def)
  then have "getVerticalOffset (Some i) (Some t) (Some b) w =
      Inr \<lparr> offset = getNormalizedOffset (lm_y i) (min (lm_y t) (lm_y b)) (max (lm_y t) (lm_y b)),
                 valid = True \<rparr>"
    unfolding getVerticalOffset_def Let_def by (simp del: divide_less_eq_numeral1)
  with False show ?thesis by presburger
qed

lemma getVerticalOffset_missing:
  "iris = None \<or> t = None \<or> b = None \<Longrightarrow>
     getVerticalOffset iris t b w = Inr \<lparr> offset = 0, valid = False \<rparr>"
  by (auto simp: getVerticalOffset_def)

lemma getVerticalOffset_total: "\<exists>v. getVerticalOffset iris t b w = Inr v"
  by (cases iris; cases t; cases b) (simp_all add: getVerticalOffset_Some getVerticalOffset_missing)

lemma analyzeRotation_total: "\<exists>r. analyzeRotation lm = Inr r"
proof (cases lm)
  case None
  then show ?thesis by (simp add: analyzeRotation_def)
next
  case (Some xs)
  obtain r where "estimateRoll (Some xs) = Inr r" using estimateRoll_total by blast
  then show ?thesis by (simp add: analyzeRotation_def Some estimateYaw_Some)
qed

lemma analyzeGaze_full:
  assumes len: "478 \<le> length xs"
    and rh: "getHorizontalOffset (xs ! 468) (xs ! 133) (xs ! 33) = Inr rh"
    and lh: "getHorizontalOffset (xs ! 473) (xs ! 362) (xs ! 263) = Inr lh"
    and rv: "getVerticalOffset (xs ! 468) (xs ! 27) (xs ! 23)
               \<bar>opt_x_or_0 (xs ! 33) - opt_x_or_0 (xs ! 133)\<bar> = Inr rv"
    and lv: "getVerticalOffset (xs ! 473) (xs ! 257) (xs ! 253)
               \<bar>opt_x_or_0 (xs ! 263) - opt_x_or_0 (xs ! 362)\<bar> = Inr lv"
  shows "\<exists>g. analyzeGaze (Some xs) = Inr g
     \<and> horizontalGaze g =
         (if (rh + lh) / 2 < - 0.15 then ''LEFT'' else if (rh + lh) / 2 > 0.15 then ''RIGHT''
          else ''CENTER'')
     \<and> verticalGaze g =
         (if valid rv \<and> valid lv then
            (if (offset rv + offset lv) / 2 < - 0.25 then ''UP''
             else if (offset rv + offset lv) / 2 > 0.25 then ''DOWN'' else ''CENTER'')
          else ''CENTER'')
     \<and> gaze.gazeDirection g =
         (if verticalGaze g \<noteq> ''CENTER'' \<and> horizontalGaze g \<noteq> ''CENTER''
            then verticalGaze g @ ''_'' @ horizontalGaze g
          else if verticalGaze g \<noteq> ''CENTER'' then verticalGaze g
          else if horizontalGaze g \<noteq> ''CENTER'' then horizontalGaze g
          else ''CENTER'')
     \<and> gaze.isLookingAway g = (horizontalGaze g \<noteq> ''CENTER'' \<or> verticalGaze g \<noteq> ''CENTER'')"
  using len
  by (auto simp: analyzeGaze_def js_index_Some RIGHT_IRIS_def LEFT_IRIS_def RIGHT_EYE_INNER_def
      RIGHT_EYE_OUTER_def RIGHT_EYE_TOP_def RIGHT_EYE_BOTTOM_def LEFT_EYE_INNER_def
      LEFT_EYE_OUTER_def LEFT_EYE_TOP_def LEFT_EYE_BOTTOM_def rh lh rv lv
      HORIZONTAL_THRESHOLD_def VERTICAL_THRESHOLD_def Let_def)

lemma analyzeGaze_total: "\<exists>g. analyzeGaze lm = Inr g"
proof (cases lm)
  case None
  then show ?thesis by (simp add: analyzeGaze_def)
next
  case (Some xs)
  show ?thesis
  proof (cases "length xs < 478")
    case True
    then show ?thesis by (simp add: analyzeGaze_def Some)
  next
    case False
    then have len: "478 \<le> length xs" by simp
    obtain rh lh rv lv where
      "getHorizontalOffset (xs ! 468) (xs ! 133) (xs ! 33) = Inr rh"
      "getHorizontalOffset (xs ! 473) (xs ! 362) (xs ! 263) = Inr lh"
      "getVerticalOffset (xs ! 468) (xs ! 27) (xs ! 23)
               \<bar>opt_x_or_0 (xs ! 33) - opt_x_or_0 (xs ! 133)\<bar> = Inr rv"
      "getVerticalOffset (xs ! 473) (xs ! 257) (xs ! 253)
               \<bar>opt_x_or_0 (xs ! 263) - opt_x_or_0 (xs ! 362)\<bar> = Inr lv"
      using getHorizontalOffset_total getVerticalOffset_total by metis
    from analyzeGaze_full [OF len this] show ?thesis unfolding Some by blast
  qed
qed


text \<open>Example faces: every landmark at the origin, then the ears moved out along the
  x axis by the given distances (right ear to the left of the nose, left ear to the right).\<close>

definition origin :: landmark where
  "origin = \<lparr> lm_x = 0, lm_y = 0 \<rparr>"

definition neutral_face :: "landmark option list" where
  "neutral_face = replicate 478 (Some origin)"

definition face_with_ears :: "real \<Rightarrow> real \<Rightarrow> landmark option list" where
  "face_with_ears rightDist leftDist =
     neutral_face[234 := Some \<lparr> lm_x = - rightDist, lm_y = 0 \<rparr>,
                  454 := Some \<lparr> lm_x = leftDist, lm_y = 0 \<rparr>]"

text \<open>
  Claim C6. For every array of at least 478 landmarks, \<open>analyzeRotation\<close> returns, its
  yaw is what \<open>estimateYaw\<close> gives, and \<open>isRotated\<close> holds exactly when the yaw is not
  \<open>CENTER\<close>. The yaw is \<open>CENTER\<close> when the nose (index 1), the left ear (454) or the
  right ear (234) is missing, or when either ear is at distance 0 from the nose; otherwise,
  with ratio = distance(nose, rightEar) / distance(nose, leftEar), it is \<open>LEFT\<close> when
  ratio < 0.6, \<open>RIGHT\<close> when ratio > 1/0.6, and \<open>CENTER\<close> in between, both bounds
  included.
\<close>

theorem C6_yaw_classification:
  assumes "478 \<le> length xs"
  shows "\<exists>r. analyzeRotation (Some xs) = Inr r
     \<and> estimateYaw (Some xs) = Inr (yaw r)
     \<and> rotation.isRotated r = (yaw r \<noteq> ''CENTER'')
     \<and> (xs ! 1 = None \<or> xs ! 454 = None \<or> xs ! 234 = None \<longrightarrow> yaw r = ''CENTER'')
     \<and> (xs ! 1 = Some nose \<and> xs ! 454 = Some leftEar \<and> xs ! 234 = Some rightEar \<longrightarrow>
          (euclid nose leftEar = 0 \<or> euclid nose rightEar = 0 \<longrightarrow> yaw r = ''CENTER'')
        \<and> (euclid nose leftEar \<noteq> 0 \<and> euclid nose rightEar \<noteq> 0 \<longrightarrow>
             (euclid nose rightEar / euclid nose leftEar < 0.6 \<longrightarrow> yaw r = ''LEFT'')
           \<and> (euclid nose rightEar / euclid nose leftEar > 1 / 0.6 \<longrightarrow> yaw r = ''RIGHT'')
           \<and> (0.6 \<le> euclid nose rightEar / euclid nose leftEar
                \<and> euclid nose rightEar / euclid nose leftEar \<le> 1 / 0.6 \<longrightarrow> yaw r = ''CENTER'')))"
proof -
  obtain rl where rl: "estimateRoll (Some xs) = Inr rl" using estimateRoll_total by blast
  obtain y where y: "estimateYaw (Some xs) = Inr y" by (simp add: estimateYaw_Some)
  have r: "analyzeRotation (Some xs) = Inr \<lparr> yaw = y, roll = rl, isRotated = (y \<noteq> ''CENTER'') \<rparr>"
    using assms by (simp add: analyzeRotation_def rl y)
  have missing: "xs ! 1 = None \<or> xs ! 454 = None \<or> xs ! 234 = None \<longrightarrow> y = ''CENTER''"
    using assms y by (auto simp: estimateYaw_Some split: option.splits)
  have present: "xs ! 1 = Some nose \<and> xs ! 454 = Some leftEar \<and> xs ! 234 = Some rightEar \<longrightarrow>
      y = (if euclid nose leftEar = 0 \<or> euclid nose rightEar = 0 then ''CENTER''
           else if euclid nose rightEar / euclid nose leftEar < 0.6 then ''LEFT''
           else if euclid nose rightEar / euclid nose leftEar > 1 / 0.6 then ''RIGHT''
           else ''CENTER'')"
    using assms y by (auto simp: estimateYaw_Some)
  show ?thesis
    apply (rule exI [of _ "\<lparr> yaw = y, roll = rl, isRotated = (y \<noteq> ''CENTER'') \<rparr>"])
    using r y missing present by auto
qed


lemma face_with_ears_nth:
  "length (face_with_ears a b) = 478"
  "face_with_ears a b ! 1 = Some origin"
  "face_with_ears a b ! Suc 0 = Some origin"
  "face_with_ears a b ! 234 = Some \<lparr> lm_x = - a, lm_y = 0 \<rparr>"
  "face_with_ears a b ! 454 = Some \<lparr> lm_x = b, lm_y = 0 \<rparr>"
  by (simp_all add: face_with_ears_def neutral_face_def)

theorem C6_yaw_classification_witness:
  "estimateYaw (Some (face_with_ears 40 100)) = Inr ''LEFT''
   \<and> estimateYaw (Some (face_with_ears 3 5)) = Inr ''CENTER''
   \<and> estimateYaw (Some (face_with_ears 100 40)) = Inr ''RIGHT''
   \<and> (\<exists>r. analyzeRotation (Some (face_with_ears 40 100)) = Inr r \<and> yaw r = ''LEFT''
          \<and> rotation.isRotated r)"
proof -
  have len: "478 \<le> length (face_with_ears a b)" for a b
    by (simp add: face_with_ears_nth)
  obtain r1 :: rotation where r1: "analyzeRotation (Some (face_with_ears 40 100)) = Inr r1"
      "estimateYaw (Some (face_with_ears 40 100)) = Inr (yaw r1)"
      "rotation.isRotated r1 = (yaw r1 \<noteq> ''CENTER'')"
      "yaw r1 = ''LEFT''"
    using C6_yaw_classification [of "face_with_ears 40 100" origin
      "\<lparr> lm_x = 100, lm_y = 0 \<rparr>" "\<lparr> lm_x = - 40, lm_y = 0 \<rparr>", OF len]
    by (auto simp: face_with_ears_nth euclid_same_y origin_def)
  obtain r2 :: rotation where r2: "estimateYaw (Some (face_with_ears 3 5)) = Inr (yaw r2)"
      "yaw r2 = ''CENTER''"
    using C6_yaw_classification [of "face_with_ears 3 5" origin
      "\<lparr> lm_x = 5, lm_y = 0 \<rparr>" "\<lparr> lm_x = - 3, lm_y = 0 \<rparr>", OF len]
    by (auto simp: face_with_ears_nth euclid_same_y origin_def)
  obtain r3 :: rotation where r3: "estimateYaw (Some (face_with_ears 100 40)) = Inr (yaw r3)"
      "yaw r3 = ''RIGHT''"
    using C6_yaw_classification [of "face_with_ears 100 40" origin
      "\<lparr> lm_x = 40, lm_y = 0 \<rparr>" "\<lparr> lm_x = - 100, lm_y = 0 \<rparr>", OF len]
    by (auto simp: face_with_ears_nth euclid_same_y origin_def)
  from r1 r2 r3 show ?thesis by simp
qed


text \<open>
  Claim C7. For a null array or one with fewer than 478 elements, \<open>analyzeRotation\<close>
  returns yaw and roll \<open>UNKNOWN\<close> with \<open>isRotated\<close> false, and \<open>analyzeGaze\<close> returns
  all three directions \<open>UNKNOWN\<close>, \<open>isLookingAway\<close> false, confidence 0 and no details.
  On every input whatsoever both functions return a result: no property read on an
  undefined value is ever reached.
\<close>

theorem C7_short_input_neutral:
  "(landmarks = None \<or> (\<exists>xs. landmarks = Some xs \<and> length xs < 478) \<longrightarrow>
      analyzeRotation landmarks = Inr \<lparr> yaw = ''UNKNOWN'', roll = ''UNKNOWN'', isRotated = False \<rparr>
    \<and> analyzeGaze landmarks =
        Inr \<lparr> horizontalGaze = ''UNKNOWN'', verticalGaze = ''UNKNOWN'', gazeDirection = ''UNKNOWN'',
              isLookingAway = False, confidence = 0, details = None \<rparr>)
   \<and> (\<exists>r. analyzeRotation landmarks = Inr r)
   \<and> (\<exists>g. analyzeGaze landmarks = Inr g)"
proof (intro conjI impI)
  assume "landmarks = None \<or> (\<exists>xs. landmarks = Some xs \<and> length xs < 478)"
  then show "analyzeRotation landmarks =
      Inr \<lparr> yaw = ''UNKNOWN'', roll = ''UNKNOWN'', isRotated = False \<rparr>"
    by (auto simp: analyzeRotation_def)
next
  assume "landmarks = None \<or> (\<exists>xs. landmarks = Some xs \<and> length xs < 478)"
  then show "analyzeGaze landmarks =
      Inr \<lparr> horizontalGaze = ''UNKNOWN'', verticalGaze = ''UNKNOWN'', gazeDirection = ''UNKNOWN'',
            isLookingAway = False, confidence = 0, details = None \<rparr>"
    by (auto simp: analyzeGaze_def gaze_unknown_def)
next
  show "\<exists>r. analyzeRotation landmarks = Inr r" by (rule analyzeRotation_total)
next
  show "\<exists>g. analyzeGaze landmarks = Inr g" by (rule analyzeGaze_total)
qed

theorem C7_short_input_neutral_witness:
  "analyzeRotation None = Inr \<lparr> yaw = ''UNKNOWN'', roll = ''UNKNOWN'', isRotated = False \<rparr>
   \<and> analyzeGaze (Some [None, Some origin]) =
        Inr \<lparr> horizontalGaze = ''UNKNOWN'', verticalGaze = ''UNKNOWN'', gazeDirection = ''UNKNOWN'',
              isLookingAway = False, confidence = 0, details = None \<rparr>"
  using C7_short_input_neutral [of None] C7_short_input_neutral [of "Some [None, Some origin]"]
  by simp

text \<open>
  Claim C8, as the code has it. A per-eye vertical reading is invalid when the iris or an
  eyelid landmark is missing; with all three present it is valid exactly when it is not
  the case that eyeWidth > 0 and eyeHeight / eyeWidth < 0.02, so with a positive eye
  width a valid reading has eyeHeight / eyeWidth of at least 0.02, and with eye width 0
  the ratio is not consulted. For every array of at least 478 landmarks \<open>analyzeGaze\<close>
  returns; the horizontal gaze is \<open>LEFT\<close> below -0.15 and \<open>RIGHT\<close> above 0.15 of the
  averaged horizontal offset; the vertical gaze uses the averaged vertical offset only
  when both readings are valid (\<open>UP\<close> below -0.25, \<open>DOWN\<close> above 0.25) and is \<open>CENTER\<close>
  otherwise; \<open>gazeDirection\<close> is the vertical label, an underscore and the horizontal
  label when both are off centre, the one off-centre label when only one is, and
  \<open>CENTER\<close> when neither is; \<open>isLookingAway\<close> holds exactly when one of the two is not
  \<open>CENTER\<close>.
\<close>

theorem C8_gaze_classification:
  "(iris = None \<or> t = None \<or> b = None \<longrightarrow>
      getVerticalOffset iris t b w = Inr \<lparr> offset = 0, valid = False \<rparr>)
   \<and> (\<exists>rd. getVerticalOffset (Some i) (Some topLid) (Some bottomLid) w = Inr rd
        \<and> valid rd = (\<not> (0 < w \<and> \<bar>lm_y bottomLid - lm_y topLid\<bar> / w < 0.02))
        \<and> (0 < w \<and> valid rd \<longrightarrow> 0.02 \<le> \<bar>lm_y bottomLid - lm_y topLid\<bar> / w))
   \<and> (478 \<le> length xs \<longrightarrow>
        (\<exists>g rh lh rv lv.
           analyzeGaze (Some xs) = Inr g
         \<and> getHorizontalOffset (xs ! 468) (xs ! 133) (xs ! 33) = Inr rh
         \<and> getHorizontalOffset (xs ! 473) (xs ! 362) (xs ! 263) = Inr lh
         \<and> getVerticalOffset (xs ! 468) (xs ! 27) (xs ! 23)
               \<bar>opt_x_or_0 (xs ! 33) - opt_x_or_0 (xs ! 133)\<bar> = Inr rv
         \<and> getVerticalOffset (xs ! 473) (xs ! 257) (xs ! 253)
               \<bar>opt_x_or_0 (xs ! 263) - opt_x_or_0 (xs ! 362)\<bar> = Inr lv
         \<and> horizontalGaze g =
             (if (rh + lh) / 2 < - 0.15 then ''LEFT'' else if (rh + lh) / 2 > 0.15 then ''RIGHT''
              else ''CENTER'')
         \<and> verticalGaze g =
             (if valid rv \<and> valid lv then
                (if (offset rv + offset lv) / 2 < - 0.25 then ''UP''
                 else if (offset rv + offset lv) / 2 > 0.25 then ''DOWN'' else ''CENTER'')
              else ''CENTER'')
         \<and> gaze.gazeDirection g =
             (if verticalGaze g \<noteq> ''CENTER'' \<and> horizontalGaze g \<noteq> ''CENTER''
                then verticalGaze g @ ''_'' @ horizontalGaze g
              else if verticalGaze g \<noteq> ''CENTER'' then verticalGaze g
              else if horizontalGaze g \<noteq> ''CENTER'' then horizontalGaze g
              else ''CENTER'')
         \<and> gaze.isLookingAway g = (horizontalGaze g \<noteq> ''CENTER'' \<or> verticalGaze g \<noteq> ''CENTER'')))"
proof (intro conjI impI)
  assume "iris = None \<or> t = None \<or> b = None"
  then show "getVerticalOffset iris t b w = Inr \<lparr> offset = 0, valid = False \<rparr>"
    by (rule getVerticalOffset_missing)
next
  show "\<exists>rd. getVerticalOffset (Some i) (Some topLid) (Some bottomLid) w = Inr rd
        \<and> valid rd = (\<not> (0 < w \<and> \<bar>lm_y bottomLid - lm_y topLid\<bar> / w < 0.02))
        \<and> (0 < w \<and> valid rd \<longrightarrow> 0.02 \<le> \<bar>lm_y bottomLid - lm_y topLid\<bar> / w)"
    unfolding getVerticalOffset_Some
    by (cases "0 < w \<and> \<bar>lm_y bottomLid - lm_y topLid\<bar> / w < 0.02") auto
next
  assume len: "478 \<le> length xs"
  obtain rh where rh: "getHorizontalOffset (xs ! 468) (xs ! 133) (xs ! 33) = Inr rh"
    using getHorizontalOffset_total by blast
  obtain lh where lh: "getHorizontalOffset (xs ! 473) (xs ! 362) (xs ! 263) = Inr lh"
    using getHorizontalOffset_total by blast
  obtain rv where rv: "getVerticalOffset (xs ! 468) (xs ! 27) (xs ! 23)
               \<bar>opt_x_or_0 (xs ! 33) - opt_x_or_0 (xs ! 133)\<bar> = Inr rv"
    using getVerticalOffset_total by blast
  obtain lv where lv: "getVerticalOffset (xs ! 473) (xs ! 257) (xs ! 253)
               \<bar>opt_x_or_0 (xs ! 263) - opt_x_or_0 (xs ! 362)\<bar> = Inr lv"
    using getVerticalOffset_total by blast
  from analyzeGaze_full [OF len rh lh rv lv] obtain g where g:
    "analyzeGaze (Some xs) = Inr g
     \<and> horizontalGaze g =
         (if (rh + lh) / 2 < - 0.15 then ''LEFT'' else if (rh + lh) / 2 > 0.15 then ''RIGHT''
          else ''CENTER'')
     \<and> verticalGaze g =
         (if valid rv \<and> valid lv then
            (if (offset rv + offset lv) / 2 < - 0.25 then ''UP''
             else if (offset rv + offset lv) / 2 > 0.25 then ''DOWN'' else ''CENTER'')
          else ''CENTER'')
     \<and> gaze.gazeDirection g =
         (if verticalGaze g \<noteq> ''CENTER'' \<and> horizontalGaze g \<noteq> ''CENTER''
            then verticalGaze g @ ''_'' @ horizontalGaze g
          else if verticalGaze g \<noteq> ''CENTER'' then verticalGaze g
          else if horizontalGaze g \<noteq> ''CENTER'' then horizontalGaze g
          else ''CENTER'')
     \<and> gaze.isLookingAway g = (horizontalGaze g \<noteq> ''CENTER'' \<or> verticalGaze g \<noteq> ''CENTER'')" ..
  show "\<exists>g rh lh rv lv.
           analyzeGaze (Some xs) = Inr g
         \<and> getHorizontalOffset (xs ! 468) (xs ! 133) (xs ! 33) = Inr rh
         \<and> getHorizontalOffset (xs ! 473) (xs ! 362) (xs ! 263) = Inr lh
         \<and> getVerticalOffset (xs ! 468) (xs ! 27) (xs ! 23)
               \<bar>opt_x_or_0 (xs ! 33) - opt_x_or_0 (xs ! 133)\<bar> = Inr rv
         \<and> getVerticalOffset (xs ! 473) (xs ! 257) (xs ! 253)
               \<bar>opt_x_or_0 (xs ! 263) - opt_x_or_0 (xs ! 362)\<bar> = Inr lv
         \<and> horizontalGaze g =
             (if (rh + lh) / 2 < - 0.15 then ''LEFT'' else if (rh + lh) / 2 > 0.15 then ''RIGHT''
              else ''CENTER'')
         \<and> verticalGaze g =
             (if valid rv \<and> valid lv then
                (if (offset rv + offset lv) / 2 < - 0.25 then ''UP''
                 else if (offset rv + offset lv) / 2 > 0.25 then ''DOWN'' else ''CENTER'')
              else ''CENTER'')
         \<and> gaze.gazeDirection g =
             (if verticalGaze g \<noteq> ''CENTER'' \<and> horizontalGaze g \<noteq> ''CENTER''
                then verticalGaze g @ ''_'' @ horizontalGaze g
              else if verticalGaze g \<noteq> ''CENTER'' then verticalGaze g
              else if horizontalGaze g \<noteq> ''CENTER'' then horizontalGaze g
              else ''CENTER'')
         \<and> gaze.isLookingAway g = (horizontalGaze g \<noteq> ''CENTER'' \<or> verticalGaze g \<noteq> ''CENTER'')"
    apply (rule exI [of _ g], rule exI [of _ rh], rule exI [of _ lh], rule exI [of _ rv],
        rule exI [of _ lv])
    using g rh lh rv lv by (intro conjI) (erule conjE | assumption)+
qed


text \<open>Example faces: both eyes open with the irises at the upper eyelids; and the same
  face with every right-eye landmark collapsed onto the origin (eye width 0, eye height 0).\<close>

definition face_looking_up :: "landmark option list" where
  "face_looking_up =
     neutral_face[468 := Some \<lparr> lm_x = 0.3, lm_y = 0.25 \<rparr>,
                  27 := Some \<lparr> lm_x = 0.3, lm_y = 0.25 \<rparr>,
                  23 := Some \<lparr> lm_x = 0.3, lm_y = 0.5 \<rparr>,
                  33 := Some \<lparr> lm_x = 0.2, lm_y = 0.3 \<rparr>,
                  133 := Some \<lparr> lm_x = 0.4, lm_y = 0.3 \<rparr>,
                  473 := Some \<lparr> lm_x = 0.7, lm_y = 0.25 \<rparr>,
                  257 := Some \<lparr> lm_x = 0.7, lm_y = 0.25 \<rparr>,
                  253 := Some \<lparr> lm_x = 0.7, lm_y = 0.5 \<rparr>,
                  362 := Some \<lparr> lm_x = 0.6, lm_y = 0.3 \<rparr>,
                  263 := Some \<lparr> lm_x = 0.8, lm_y = 0.3 \<rparr>]"

definition face_right_eye_collapsed :: "landmark option list" where
  "face_right_eye_collapsed =
     face_looking_up[468 := Some origin, 27 := Some origin, 23 := Some origin,
                     33 := Some origin, 133 := Some origin]"

lemma face_looking_up_nth:
  "length face_looking_up = 478"
  "face_looking_up ! 468 = Some \<lparr> lm_x = 0.3, lm_y = 0.25 \<rparr>"
  "face_looking_up ! 27 = Some \<lparr> lm_x = 0.3, lm_y = 0.25 \<rparr>"
  "face_looking_up ! 23 = Some \<lparr> lm_x = 0.3, lm_y = 0.5 \<rparr>"
  "face_looking_up ! 33 = Some \<lparr> lm_x = 0.2, lm_y = 0.3 \<rparr>"
  "face_looking_up ! 133 = Some \<lparr> lm_x = 0.4, lm_y = 0.3 \<rparr>"
  "face_looking_up ! 473 = Some \<lparr> lm_x = 0.7, lm_y = 0.25 \<rparr>"
  "face_looking_up ! 257 = Some \<lparr> lm_x = 0.7, lm_y = 0.25 \<rparr>"
  "face_looking_up ! 253 = Some \<lparr> lm_x = 0.7, lm_y = 0.5 \<rparr>"
  "face_looking_up ! 362 = Some \<lparr> lm_x = 0.6, lm_y = 0.3 \<rparr>"
  "face_looking_up ! 263 = Some \<lparr> lm_x = 0.8, lm_y = 0.3 \<rparr>"
  by (simp_all add: face_looking_up_def neutral_face_def)

lemma face_right_eye_collapsed_nth:
  "length face_right_eye_collapsed = 478"
  "face_right_eye_collapsed ! 468 = Some origin"
  "face_right_eye_collapsed ! 27 = Some origin"
  "face_right_eye_collapsed ! 23 = Some origin"
  "face_right_eye_collapsed ! 33 = Some origin"
  "face_right_eye_collapsed ! 133 = Some origin"
  "face_right_eye_collapsed ! 473 = Some \<lparr> lm_x = 0.7, lm_y = 0.25 \<rparr>"
  "face_right_eye_collapsed ! 257 = Some \<lparr> lm_x = 0.7, lm_y = 0.25 \<rparr>"
  "face_right_eye_collapsed ! 253 = Some \<lparr> lm_x = 0.7, lm_y = 0.5 \<rparr>"
  "face_right_eye_collapsed ! 362 = Some \<lparr> lm_x = 0.6, lm_y = 0.3 \<rparr>"
  "face_right_eye_collapsed ! 263 = Some \<lparr> lm_x = 0.8, lm_y = 0.3 \<rparr>"
  by (simp_all add: face_right_eye_collapsed_def face_looking_up_nth)

lemma getHorizontalOffset_Some:
  "getHorizontalOffset (Some i) (Some n) (Some o') =
     Inr (getNormalizedOffset (lm_x i) (min (lm_x n) (lm_x o')) (max (lm_x n) (lm_x o')))"
  by (simp add: getHorizontalOffset_def)

theorem C8_gaze_classification_witness:
  "getVerticalOffset None (Some origin) (Some origin) 2 = Inr \<lparr> offset = 0, valid = False \<rparr>
   \<and> (\<exists>rd. getVerticalOffset (Some origin) (Some origin) (Some \<lparr> lm_x = 0, lm_y = 1 \<rparr>) 2 = Inr rd
          \<and> valid rd)
   \<and> (\<exists>g. analyzeGaze (Some face_looking_up) = Inr g \<and> verticalGaze g = ''UP''
          \<and> horizontalGaze g = ''CENTER'' \<and> gaze.gazeDirection g = ''UP''
          \<and> gaze.isLookingAway g)"
proof -
  note c8 = C8_gaze_classification [of None "Some origin" "Some origin" 2 origin origin
      "\<lparr> lm_x = 0, lm_y = 1 \<rparr>" face_looking_up]
  from c8 have a: "getVerticalOffset None (Some origin) (Some origin) 2 =
      Inr \<lparr> offset = 0, valid = False \<rparr>"
    by simp
  from c8 have b: "\<exists>rd. getVerticalOffset (Some origin) (Some origin)
      (Some \<lparr> lm_x = 0, lm_y = 1 \<rparr>) 2 = Inr rd \<and> valid rd"
    by (auto simp: origin_def)
  from c8 have c: "\<exists>g. analyzeGaze (Some face_looking_up) = Inr g \<and> verticalGaze g = ''UP''
          \<and> horizontalGaze g = ''CENTER'' \<and> gaze.gazeDirection g = ''UP''
          \<and> gaze.isLookingAway g"
    by (auto simp: face_looking_up_nth getVerticalOffset_Some getHorizontalOffset_Some
        getNormalizedOffset_def opt_x_or_0_def)
  from a b c show ?thesis by blast
qed

text \<open>
  The claim as the spec words it (a reading is valid only when eyeHeight / eyeWidth is at
  least 0.02) fails for an eye of width 0 and height 0: the guard \<open>eyeWidth > 0\<close> skips
  the ratio test, the reading is valid with offset 0, and it is averaged with the other
  eye's reading, here giving \<open>UP\<close>.
\<close>

theorem C8_counterexample:
  "\<exists>g rv. analyzeGaze (Some face_right_eye_collapsed) = Inr g
     \<and> verticalGaze g = ''UP''
     \<and> getVerticalOffset (face_right_eye_collapsed ! 468) (face_right_eye_collapsed ! 27)
          (face_right_eye_collapsed ! 23)
          \<bar>opt_x_or_0 (face_right_eye_collapsed ! 33) - opt_x_or_0 (face_right_eye_collapsed ! 133)\<bar>
        = Inr rv
     \<and> valid rv
     \<and> \<bar>opt_x_or_0 (face_right_eye_collapsed ! 33) - opt_x_or_0 (face_right_eye_collapsed ! 133)\<bar> = 0
     \<and> \<bar>lm_y (the (face_right_eye_collapsed ! 23)) - lm_y (the (face_right_eye_collapsed ! 27))\<bar> = 0
     \<and> \<not> (0.02 \<le> \<bar>lm_y (the (face_right_eye_collapsed ! 23)) - lm_y (the (face_right_eye_collapsed ! 27))\<bar>
                 / \<bar>opt_x_or_0 (face_right_eye_collapsed ! 33) - opt_x_or_0 (face_right_eye_collapsed ! 133)\<bar>)"
proof -
  have len: "478 \<le> length face_right_eye_collapsed"
    by (simp add: face_right_eye_collapsed_nth)
  have rh: "getHorizontalOffset (face_right_eye_collapsed ! 468) (face_right_eye_collapsed ! 133)
      (face_right_eye_collapsed ! 33) = Inr 0"
    by (simp add: face_right_eye_collapsed_nth getHorizontalOffset_Some getNormalizedOffset_def origin_def)
  have lh: "getHorizontalOffset (face_right_eye_collapsed ! 473) (face_right_eye_collapsed ! 362)
      (face_right_eye_collapsed ! 263) = Inr 0"
    by (simp add: face_right_eye_collapsed_nth getHorizontalOffset_Some getNormalizedOffset_def)
  have rv: "getVerticalOffset (face_right_eye_collapsed ! 468) (face_right_eye_collapsed ! 27)
      (face_right_eye_collapsed ! 23)
      \<bar>opt_x_or_0 (face_right_eye_collapsed ! 33) - opt_x_or_0 (face_right_eye_collapsed ! 133)\<bar>
      = Inr \<lparr> offset = 0, valid = True \<rparr>"
    by (simp add: face_right_eye_collapsed_nth getVerticalOffset_Some getNormalizedOffset_def
        opt_x_or_0_def origin_def)
  have lv: "getVerticalOffset (face_right_eye_collapsed ! 473) (face_right_eye_collapsed ! 257)
      (face_right_eye_collapsed ! 253)
      \<bar>opt_x_or_0 (face_right_eye_collapsed ! 263) - opt_x_or_0 (face_right_eye_collapsed ! 362)\<bar>
      = Inr \<lparr> offset = - 1, valid = True \<rparr>"
    by (simp add: face_right_eye_collapsed_nth getVerticalOffset_Some getNormalizedOffset_def
        opt_x_or_0_def)
  from analyzeGaze_full [OF len rh lh rv lv] obtain g where
    g: "analyzeGaze (Some face_right_eye_collapsed) = Inr g" "verticalGaze g = ''UP''"
    by auto
  show ?thesis
    apply (rule exI [of _ g], rule exI [of _ "\<lparr> offset = 0, valid = True \<rparr>"])
    using g rv by (simp add: face_right_eye_collapsed_nth opt_x_or_0_def origin_def)
qed


section \<open>Frame scheduler (frameProcessor.js)\<close>

text \<open>
  The processor is a closure over \<open>intervalId\<close>, \<open>isProcessing\<close>, \<open>consecutiveOverruns\<close>,
  \<open>isDisabled\<close>, \<open>canvas\<close> and \<open>ctx\<close>; the model passes them as a record. The callbacks
  \<open>onAnalysis\<close>, \<open>onDisabled\<close> and \<open>onError\<close> are optional: the options say which are
  supplied, and a call of a supplied callback is an emitted event (callbacks themselves are
  taken not to throw). Console output is left out.

  What the browser and the detector do during one cycle is an input: the video element,
  whether \<open>getContext\<close> yields a context, what \<open>drawImage\<close>, \<open>detectFaces\<close> and
  \<open>getImageData\<close> return or throw, and the two readings of \<open>performance.now()\<close>.
  One call of \<open>processFrame\<close> is one step; a tick that fires while a cycle is in flight is
  a call in a state with \<open>isProcessing\<close> set.
\<close>

definition PROCESS_INTERVAL_MS :: nat where "PROCESS_INTERVAL_MS = 500"
definition MAX_PROCESSING_MS :: real where "MAX_PROCESSING_MS = 200"
definition MAX_CONSECUTIVE_OVERRUNS :: nat where "MAX_CONSECUTIVE_OVERRUNS = 3"

datatype jsval = JNum real | JBool bool | JStr string | JNull

text \<open>An object literal: its fields in order. \<open>map_of\<close> reads a field, \<open>None\<close> for a
  field the object does not have.\<close>

type_synonym js_object = "(string \<times> jsval) list"

datatype event = Analysis js_object | Disabled string | Error js_error

record options =
  onAnalysis :: bool
  onDisabled :: bool
  onError :: bool

record video =
  readyState :: nat
  videoWidth :: nat
  videoHeight :: nat

text \<open>The result of \<open>detectFaces\<close>: the face count, and (in the landmarker variant of the
  adapter) the landmark array of each face.\<close>

record detection =
  count :: nat
  faces :: "landmark option list list"

type_synonym pixel = "nat \<times> nat \<times> nat \<times> nat"

record cycle =
  videoElement :: "video option"
  context_available :: bool
  drawImage_error :: "js_error option"
  detectFaces_result :: "js_error + detection"
  getImageData_result :: "js_error + pixel list"
  startTime :: real
  endTime :: real

record processor =
  intervalId :: "nat option"
  isProcessing :: bool
  consecutiveOverruns :: nat
  isDisabled :: bool
  canvas :: "(nat \<times> nat) option"
  ctx :: bool

definition createFrameProcessor :: processor where
  "createFrameProcessor =
     \<lparr> intervalId = None, isProcessing = False, consecutiveOverruns = 0, isDisabled = False,
       canvas = None, ctx = False \<rparr>"

definition initCanvas :: "video \<Rightarrow> cycle \<Rightarrow> processor \<Rightarrow> processor" where
  "initCanvas v w s =
     (let width = (if videoWidth v = 0 then 320 else videoWidth v);
          height = (if videoHeight v = 0 then 240 else videoHeight v)
      in s \<lparr> canvas := Some (width, height), ctx := context_available w \<rparr>)"

text \<open>\<open>captureFrame\<close>: \<open>ctx.drawImage\<close> on a null context is a TypeError; otherwise
  \<open>drawImage\<close> may throw by itself.\<close>

definition captureFrame :: "video \<Rightarrow> cycle \<Rightarrow> processor \<Rightarrow> processor \<times> (js_error + unit)" where
  "captureFrame v w s =
     (let s1 = (if canvas s = None \<or> \<not> ctx s then initCanvas v w s else s)
      in if \<not> ctx s1 then (s1, Inl TypeError)
         else (case drawImage_error w of
                 Some e \<Rightarrow> (s1, Inl e)
               | None \<Rightarrow> (s1, Inr ())))"

text \<open>The sampling loop of \<open>calculateBrightness\<close>: the byte index advances by 40, that is
  by ten pixels.\<close>

function sampleLoop :: "pixel list \<Rightarrow> real \<Rightarrow> nat \<Rightarrow> real \<times> nat" where
  "sampleLoop [] totalBrightness sampleCount = (totalBrightness, sampleCount)"
| "sampleLoop ((r, g, b, a) # rest) totalBrightness sampleCount =
     sampleLoop (drop 9 rest)
       (totalBrightness + (0.299 * real r + 0.587 * real g + 0.114 * real b))
       (sampleCount + 1)"
  by pat_completeness auto
termination
  by (relation "measure (\<lambda>(px, t, n). length px)") auto

definition calculateBrightness :: "pixel list \<Rightarrow> real" where
  "calculateBrightness data =
     (case sampleLoop data 0 0 of
        (totalBrightness, sampleCount) \<Rightarrow>
          if sampleCount > 0 then totalBrightness / real sampleCount else 0)"

definition stop :: "processor \<Rightarrow> processor" where
  "stop s = (if intervalId s \<noteq> None then s \<lparr> intervalId := None \<rparr> else s)"

definition disable :: "options \<Rightarrow> string \<Rightarrow> processor \<Rightarrow> processor \<times> event list" where
  "disable opts reason s =
     (stop (s \<lparr> isDisabled := True \<rparr>), if onDisabled opts then [Disabled reason] else [])"

text \<open>\<open>start\<close>; the argument is the handle \<open>setInterval\<close> returns.\<close>

definition start :: "nat \<Rightarrow> processor \<Rightarrow> processor" where
  "start newId s =
     (if intervalId s \<noteq> None then s
      else s \<lparr> isDisabled := False, consecutiveOverruns := 0, intervalId := Some newId \<rparr>)"

text \<open>The body of the \<open>try\<close> block: the new state, the events emitted, and the exception
  that leaves the block, if any.\<close>

definition try_block ::
    "options \<Rightarrow> video \<Rightarrow> cycle \<Rightarrow> processor \<Rightarrow> processor \<times> event list \<times> js_error option" where
  "try_block opts v w s =
     (case captureFrame v w s of
        (s1, Inl e) \<Rightarrow> (s1, [], Some e)
      | (s1, Inr frame) \<Rightarrow>
          (case detectFaces_result w of
             Inl e \<Rightarrow> (s1, [], Some e)
           | Inr faceDetection \<Rightarrow>
               (case getImageData_result w of
                  Inl e \<Rightarrow> (s1, [], Some e)
                | Inr data \<Rightarrow>
                    (let brightness = calculateBrightness data;
                         processingTime = endTime w - startTime w;
                         report = (if onAnalysis opts then
                            [Analysis [(''faceCount'', JNum (real (count faceDetection))),
                                       (''brightness'', JNum brightness),
                                       (''processingTime'', JNum processingTime)]]
                            else [])
                     in if processingTime > MAX_PROCESSING_MS then
                          (let s2 = s1 \<lparr> consecutiveOverruns := consecutiveOverruns s1 + 1 \<rparr>
                           in if consecutiveOverruns s2 \<ge> MAX_CONSECUTIVE_OVERRUNS then
                                (case disable opts ''Processing time exceeded budget'' s2 of
                                   (s3, evs) \<Rightarrow> (s3, evs, None))
                              else (s2, report, None))
                        else (s1 \<lparr> consecutiveOverruns := 0 \<rparr>, report, None)))))"

definition processFrame :: "options \<Rightarrow> cycle \<Rightarrow> processor \<Rightarrow> processor \<times> event list" where
  "processFrame opts w s =
     (if isProcessing s \<or> isDisabled s then (s, [])
      else (case videoElement w of
              None \<Rightarrow> (s, [])
            | Some v \<Rightarrow>
                if readyState v < 2 then (s, [])
                else (case try_block opts v w (s \<lparr> isProcessing := True \<rparr>) of
                        (s1, evs, thrown) \<Rightarrow>
                          (s1 \<lparr> isProcessing := False \<rparr>,
                           evs @ (case thrown of
                                    None \<Rightarrow> []
                                  | Some e \<Rightarrow> if onError opts then [Error e] else [])))))"

text \<open>A sequence of calls, one per cycle; the events are collected in order.\<close>

fun processFrames :: "options \<Rightarrow> cycle list \<Rightarrow> processor \<Rightarrow> processor \<times> event list" where
  "processFrames opts [] s = (s, [])"
| "processFrames opts (w # ws) s =
     (case processFrame opts w s of
        (s1, evs) \<Rightarrow> (case processFrames opts ws s1 of (s2, evs') \<Rightarrow> (s2, evs @ evs')))"


subsection \<open>Cycles that complete, and the budget\<close>

text \<open>A cycle completes when the video is ready, a drawing context can be had, and neither
  \<open>drawImage\<close>, \<open>detectFaces\<close> nor \<open>getImageData\<close> throws; it is over budget when the
  elapsed time exceeds \<open>MAX_PROCESSING_MS\<close>.\<close>

definition completes :: "cycle \<Rightarrow> bool" where
  "completes w =
     ((case videoElement w of None \<Rightarrow> False | Some v \<Rightarrow> readyState v \<ge> 2)
      \<and> context_available w \<and> drawImage_error w = None
      \<and> (case detectFaces_result w of Inl e \<Rightarrow> False | Inr d \<Rightarrow> True)
      \<and> (case getImageData_result w of Inl e \<Rightarrow> False | Inr p \<Rightarrow> True))"

definition over_budget :: "cycle \<Rightarrow> bool" where
  "over_budget w = (endTime w - startTime w > MAX_PROCESSING_MS)"

lemma processFrame_skip:
  "isProcessing s \<or> isDisabled s \<Longrightarrow> processFrame opts w s = (s, [])"
  by (auto simp: processFrame_def)

lemma processFrames_disabled:
  "isDisabled s \<Longrightarrow> processFrames opts ws s = (s, [])"
  by (induction ws) (simp_all add: processFrame_skip)

lemma captureFrame_completes:
  "context_available w \<Longrightarrow> drawImage_error w = None \<Longrightarrow> snd (captureFrame v w s) = Inr ()"
  by (auto simp: captureFrame_def initCanvas_def Let_def)

lemma captureFrame_keeps:
  "consecutiveOverruns (fst (captureFrame v w s)) = consecutiveOverruns s"
  "isDisabled (fst (captureFrame v w s)) = isDisabled s"
  "isProcessing (fst (captureFrame v w s)) = isProcessing s"
  "intervalId (fst (captureFrame v w s)) = intervalId s"
  by (auto simp: captureFrame_def initCanvas_def Let_def split: option.splits)

lemma overrun_step:
  assumes "\<not> isProcessing s" "\<not> isDisabled s" "completes w" "over_budget w"
  shows "consecutiveOverruns (fst (processFrame opts w s)) = consecutiveOverruns s + 1"
    and "\<not> isProcessing (fst (processFrame opts w s))"
    and "isDisabled (fst (processFrame opts w s)) = (consecutiveOverruns s + 1 \<ge> 3)"
    and "consecutiveOverruns s + 1 \<ge> 3 \<Longrightarrow> intervalId (fst (processFrame opts w s)) = None"
    and "consecutiveOverruns s + 1 \<ge> 3 \<Longrightarrow>
           snd (processFrame opts w s) =
             (if onDisabled opts then [Disabled ''Processing time exceeded budget''] else [])"
proof -
  from assms(3) obtain v d p where w: "videoElement w = Some v" "readyState v \<ge> 2"
      "context_available w" "drawImage_error w = None"
      "detectFaces_result w = Inr d" "getImageData_result w = Inr p"
    by (auto simp: completes_def split: option.splits sum.splits)
  obtain s1 where c: "captureFrame v w (s \<lparr> isProcessing := True \<rparr>) = (s1, Inr ())"
    using captureFrame_completes [OF w(3) w(4)] by (metis prod.collapse)
  have k: "consecutiveOverruns s1 = consecutiveOverruns s" "isDisabled s1 = isDisabled s"
    using captureFrame_keeps [of v w "s \<lparr> isProcessing := True \<rparr>"] c by simp_all
  show "consecutiveOverruns (fst (processFrame opts w s)) = consecutiveOverruns s + 1"
    using assms w c k
    by (simp add: processFrame_def try_block_def over_budget_def disable_def stop_def
        MAX_CONSECUTIVE_OVERRUNS_def Let_def)
  show "\<not> isProcessing (fst (processFrame opts w s))"
    using assms w c k
    by (simp add: processFrame_def try_block_def over_budget_def disable_def stop_def
        MAX_CONSECUTIVE_OVERRUNS_def Let_def)
  show "isDisabled (fst (processFrame opts w s)) = (consecutiveOverruns s + 1 \<ge> 3)"
    using assms w c k
    by (simp add: processFrame_def try_block_def over_budget_def disable_def stop_def
        MAX_CONSECUTIVE_OVERRUNS_def Let_def)
  show "consecutiveOverruns s + 1 \<ge> 3 \<Longrightarrow> intervalId (fst (processFrame opts w s)) = None"
    using assms w c k
    by (simp add: processFrame_def try_block_def over_budget_def disable_def stop_def
        MAX_CONSECUTIVE_OVERRUNS_def Let_def)
  show "consecutiveOverruns s + 1 \<ge> 3 \<Longrightarrow>
           snd (processFrame opts w s) =
             (if onDisabled opts then [Disabled ''Processing time exceeded budget''] else [])"
    using assms w c k
    by (simp add: processFrame_def try_block_def over_budget_def disable_def stop_def
        MAX_CONSECUTIVE_OVERRUNS_def Let_def)
qed


lemma captureFrame_isProcessing:
  "snd (captureFrame v w (s \<lparr> isProcessing := b \<rparr>)) = snd (captureFrame v w s)"
  by (auto simp: captureFrame_def initCanvas_def Let_def split: option.splits)

lemma try_block_thrown:
  assumes "snd (captureFrame v w s) = Inl e
      \<or> (snd (captureFrame v w s) = Inr () \<and> detectFaces_result w = Inl e)
      \<or> (snd (captureFrame v w s) = Inr () \<and> (\<exists>d. detectFaces_result w = Inr d)
          \<and> getImageData_result w = Inl e)"
  shows "try_block opts v w s = (fst (captureFrame v w s), [], Some e)"
  using assms by (cases "captureFrame v w s") (auto simp: try_block_def)

text \<open>Example inputs: all three callbacks supplied; a ready 320x240 video; a cycle that
  completes in the given number of milliseconds on a uniformly grey frame, the detector
  reporting one face turned left; and the same cycle with the detector throwing.\<close>

definition all_handlers :: options where
  "all_handlers = \<lparr> onAnalysis = True, onDisabled = True, onError = True \<rparr>"

definition ready_video :: video where
  "ready_video = \<lparr> readyState = 4, videoWidth = 320, videoHeight = 240 \<rparr>"

definition cycle_taking :: "real \<Rightarrow> cycle" where
  "cycle_taking ms =
     \<lparr> videoElement = Some ready_video, context_available = True, drawImage_error = None,
       detectFaces_result = Inr \<lparr> count = 1, faces = [face_with_ears 40 100] \<rparr>,
       getImageData_result = Inr [(100, 100, 100, 255)],
       startTime = 1000, endTime = 1000 + ms \<rparr>"

definition cycle_detector_failing :: cycle where
  "cycle_detector_failing =
     (cycle_taking 50) \<lparr> detectFaces_result := Inl (Exception ''model failed to load'') \<rparr>"

subsection \<open>Hard failures\<close>

text \<open>
  Claim C3. Take a cycle that starts (the processor is neither processing nor disabled and
  the video is ready) in which \<open>captureFrame\<close> throws \<open>e\<close>, or it succeeds and
  \<open>detectFaces\<close> throws \<open>e\<close>. Then the only event is the error event carrying \<open>e\<close>
  (given an \<open>onError\<close> callback; none otherwise), no analysis event is emitted,
  \<open>consecutiveOverruns\<close> is unchanged, \<open>isProcessing\<close> is false afterwards, and the
  processor is neither disabled nor is its timer touched.
\<close>

theorem C3_hard_failure:
  assumes "\<not> isProcessing s" and "\<not> isDisabled s"
    and "videoElement w = Some v" and "readyState v \<ge> 2"
    and "snd (captureFrame v w s) = Inl e
      \<or> (snd (captureFrame v w s) = Inr () \<and> detectFaces_result w = Inl e)"
  shows "snd (processFrame opts w s) = (if onError opts then [Error e] else [])
     \<and> (\<forall>obj. Analysis obj \<notin> set (snd (processFrame opts w s)))
     \<and> consecutiveOverruns (fst (processFrame opts w s)) = consecutiveOverruns s
     \<and> \<not> isProcessing (fst (processFrame opts w s))
     \<and> \<not> isDisabled (fst (processFrame opts w s))
     \<and> intervalId (fst (processFrame opts w s)) = intervalId s"
proof -
  let ?s = "s \<lparr> isProcessing := True \<rparr>"
  from assms(5) have "snd (captureFrame v w ?s) = Inl e
      \<or> (snd (captureFrame v w ?s) = Inr () \<and> detectFaces_result w = Inl e)"
    by (simp add: captureFrame_isProcessing)
  then have t: "try_block opts v w ?s = (fst (captureFrame v w ?s), [], Some e)"
    by (intro try_block_thrown) blast
  have p: "processFrame opts w s =
      ((fst (captureFrame v w ?s)) \<lparr> isProcessing := False \<rparr>,
       if onError opts then [Error e] else [])"
    using assms(1-4) by (simp add: processFrame_def t)
  show ?thesis
    using assms(2) by (simp add: p captureFrame_keeps)
qed


lemma cycle_taking_completes: "completes (cycle_taking ms)"
  by (simp add: completes_def cycle_taking_def ready_video_def)

lemma cycle_taking_over_budget: "over_budget (cycle_taking ms) = (ms > 200)"
  by (simp add: over_budget_def cycle_taking_def MAX_PROCESSING_MS_def)

theorem C3_hard_failure_witness:
  "snd (processFrame all_handlers cycle_detector_failing
          ((start 1 createFrameProcessor) \<lparr> consecutiveOverruns := 2 \<rparr>))
     = [Error (Exception ''model failed to load'')]
   \<and> consecutiveOverruns (fst (processFrame all_handlers cycle_detector_failing
          ((start 1 createFrameProcessor) \<lparr> consecutiveOverruns := 2 \<rparr>))) = 2
   \<and> \<not> isProcessing (fst (processFrame all_handlers cycle_detector_failing
          ((start 1 createFrameProcessor) \<lparr> consecutiveOverruns := 2 \<rparr>)))"
  using C3_hard_failure [of "(start 1 createFrameProcessor) \<lparr> consecutiveOverruns := 2 \<rparr>"
      cycle_detector_failing ready_video "Exception ''model failed to load''" all_handlers]
  by (simp add: start_def createFrameProcessor_def cycle_detector_failing_def cycle_taking_def
      ready_video_def all_handlers_def captureFrame_def initCanvas_def Let_def)

subsection \<open>Overrun breaker\<close>

text \<open>
  Claim C2. Start from a processor that is neither processing nor disabled with
  \<open>consecutiveOverruns\<close> 0, and let three cycles in a row complete over budget. After the
  first and the second the processor is not disabled. The third leaves it disabled, with the
  timer cleared, the counter at 3 and \<open>isProcessing\<close> false; its only event is the
  disabled event with the reason \<open>Processing time exceeded budget\<close> (given an
  \<open>onDisabled\<close> callback), and it emits no analysis event. From then on every call of
  \<open>processFrame\<close>, whatever the cycle, changes nothing and emits nothing, until
  \<open>start\<close> clears the disabled flag and the counter and sets a new timer.
\<close>

theorem C2_overrun_breaker:
  fixes s :: processor and opts :: options and wa wb wc :: cycle
  defines "sa \<equiv> fst (processFrame opts wa s)"
  defines "sb \<equiv> fst (processFrame opts wb sa)"
  defines "sc \<equiv> fst (processFrame opts wc sb)"
  assumes idle: "\<not> isProcessing s" "\<not> isDisabled s" and fresh: "consecutiveOverruns s = 0"
    and c1: "completes wa" "over_budget wa"
    and c2: "completes wb" "over_budget wb"
    and c3: "completes wc" "over_budget wc"
  shows "\<not> isDisabled sa \<and> \<not> isDisabled sb
     \<and> isDisabled sc \<and> intervalId sc = None \<and> consecutiveOverruns sc = 3 \<and> \<not> isProcessing sc
     \<and> snd (processFrame opts wc sb) =
         (if onDisabled opts then [Disabled ''Processing time exceeded budget''] else [])
     \<and> (\<forall>obj. Analysis obj \<notin> set (snd (processFrame opts wc sb)))
     \<and> (\<forall>ws. processFrames opts ws sc = (sc, []))
     \<and> (\<forall>newId. \<not> isDisabled (start newId sc) \<and> consecutiveOverruns (start newId sc) = 0
           \<and> intervalId (start newId sc) = Some newId)"
proof -
  have a1: "consecutiveOverruns sa = 1" "\<not> isProcessing sa" "\<not> isDisabled sa"
    unfolding sa_def using overrun_step(1-3) [OF idle c1, of opts] fresh by simp_all
  have a2: "consecutiveOverruns sb = 2" "\<not> isProcessing sb" "\<not> isDisabled sb"
    unfolding sb_def using overrun_step(1-3) [OF a1(2,3) c2, of opts] a1(1) by simp_all
  have a3: "consecutiveOverruns sc = 3" "\<not> isProcessing sc" "isDisabled sc"
    unfolding sc_def using overrun_step(1-3) [OF a2(2,3) c3, of opts] a2(1) by simp_all
  have i3: "intervalId sc = None"
    unfolding sc_def using overrun_step(4) [OF a2(2,3) c3, of opts] a2(1) by simp
  have e3: "snd (processFrame opts wc sb) =
         (if onDisabled opts then [Disabled ''Processing time exceeded budget''] else [])"
    using overrun_step(5) [OF a2(2,3) c3, of opts] a2(1) by simp
  have n3: "\<forall>obj. Analysis obj \<notin> set (snd (processFrame opts wc sb))"
    by (simp add: e3)
  have f3: "\<forall>ws. processFrames opts ws sc = (sc, [])"
    using a3(3) by (simp add: processFrames_disabled)
  have r3: "\<forall>newId. \<not> isDisabled (start newId sc) \<and> consecutiveOverruns (start newId sc) = 0
           \<and> intervalId (start newId sc) = Some newId"
    using i3 by (simp add: start_def)
  from a1 a2 a3 i3 e3 n3 f3 r3 show ?thesis by blast
qed


theorem C2_overrun_breaker_witness:
  "isDisabled (fst (processFrame all_handlers (cycle_taking 250)
      (fst (processFrame all_handlers (cycle_taking 250)
        (fst (processFrame all_handlers (cycle_taking 250) (start 1 createFrameProcessor)))))))
   \<and> snd (processFrame all_handlers (cycle_taking 250)
      (fst (processFrame all_handlers (cycle_taking 250)
        (fst (processFrame all_handlers (cycle_taking 250) (start 1 createFrameProcessor))))))
     = [Disabled ''Processing time exceeded budget'']
   \<and> \<not> isDisabled (fst (processFrame all_handlers (cycle_taking 250)
        (fst (processFrame all_handlers (cycle_taking 250) (start 1 createFrameProcessor)))))"
  using C2_overrun_breaker [where s = "start 1 createFrameProcessor" and opts = all_handlers
      and wa = "cycle_taking 250" and wb = "cycle_taking 250" and wc = "cycle_taking 250"]
  by (simp add: cycle_taking_completes cycle_taking_over_budget start_def
      createFrameProcessor_def all_handlers_def)

lemma analysis_event_shape:
  "Analysis obj \<in> set (snd (processFrame opts w s)) \<Longrightarrow>
     \<exists>d p. detectFaces_result w = Inr d \<and> getImageData_result w = Inr p
       \<and> obj = [(''faceCount'', JNum (real (count d))),
                 (''brightness'', JNum (calculateBrightness p)),
                 (''processingTime'', JNum (endTime w - startTime w))]"
  by (auto simp: processFrame_def try_block_def disable_def Let_def
      split: if_splits option.splits sum.splits prod.splits)

lemma initCanvas_ignores_detection:
  "initCanvas v (w \<lparr> detectFaces_result := x \<rparr>) s = initCanvas v w s"
  by (simp add: initCanvas_def)

lemma captureFrame_ignores_detection:
  "captureFrame v (w \<lparr> detectFaces_result := x \<rparr>) s = captureFrame v w s"
  unfolding captureFrame_def initCanvas_ignores_detection by (simp add: Let_def)

lemma try_block_ignores_faces:
  "try_block opts v (w \<lparr> detectFaces_result := Inr (d \<lparr> faces := f \<rparr>) \<rparr>) s
     = try_block opts v (w \<lparr> detectFaces_result := Inr d \<rparr>) s"
  unfolding try_block_def captureFrame_ignores_detection
  by (cases "captureFrame v w s") (simp add: Let_def split: sum.splits)

lemma processFrame_ignores_faces:
  "processFrame opts (w \<lparr> detectFaces_result := Inr (d \<lparr> faces := f \<rparr>) \<rparr>) s
     = processFrame opts (w \<lparr> detectFaces_result := Inr d \<rparr>) s"
  unfolding processFrame_def try_block_ignores_faces by simp

lemma on_budget_step:
  assumes "\<not> isProcessing s" "\<not> isDisabled s" "completes w" "\<not> over_budget w" "onAnalysis opts"
  shows "\<exists>obj. snd (processFrame opts w s) = [Analysis obj]"
proof -
  from assms(3) obtain v d p where w: "videoElement w = Some v" "readyState v \<ge> 2"
      "context_available w" "drawImage_error w = None"
      "detectFaces_result w = Inr d" "getImageData_result w = Inr p"
    by (auto simp: completes_def split: option.splits sum.splits)
  obtain sa where c: "captureFrame v w (s \<lparr> isProcessing := True \<rparr>) = (sa, Inr ())"
    using captureFrame_completes [OF w(3) w(4)] by (metis prod.collapse)
  show ?thesis
    using assms w c
    by (simp add: processFrame_def try_block_def over_budget_def Let_def)
qed

subsection \<open>The analysis event\<close>

text \<open>
  Claim C1, as the code has it. Every analysis event emitted by \<open>processFrame\<close> carries
  the object with exactly the fields \<open>faceCount\<close> (the detector's count), \<open>brightness\<close>
  (of the sampled pixels) and \<open>processingTime\<close> (the elapsed time), in a cycle where
  detection and pixel read both succeeded; it has no field \<open>isRotated\<close>,
  \<open>isLookingAway\<close> or \<open>gazeDirection\<close>. The landmarks the detector returns play no
  part: replacing them changes neither the new state nor the events. A cycle that
  completes within budget, with an \<open>onAnalysis\<close> callback, emits exactly one such event.
\<close>

theorem C1_analysis_event_fields:
  "(Analysis obj \<in> set (snd (processFrame opts w s)) \<longrightarrow>
      (\<exists>d p. detectFaces_result w = Inr d \<and> getImageData_result w = Inr p
         \<and> obj = [(''faceCount'', JNum (real (count d))),
                   (''brightness'', JNum (calculateBrightness p)),
                   (''processingTime'', JNum (endTime w - startTime w))])
      \<and> map_of obj ''isRotated'' = None
      \<and> map_of obj ''isLookingAway'' = None
      \<and> map_of obj ''gazeDirection'' = None)
   \<and> processFrame opts (w \<lparr> detectFaces_result := Inr (d' \<lparr> faces := f \<rparr>) \<rparr>) s
       = processFrame opts (w \<lparr> detectFaces_result := Inr d' \<rparr>) s
   \<and> (\<not> isProcessing s \<and> \<not> isDisabled s \<and> completes w \<and> \<not> over_budget w \<and> onAnalysis opts
        \<longrightarrow> (\<exists>obj. snd (processFrame opts w s) = [Analysis obj]))"
proof (intro conjI impI)
  assume a: "Analysis obj \<in> set (snd (processFrame opts w s))"
  from analysis_event_shape [OF a]
  show "\<exists>d p. detectFaces_result w = Inr d \<and> getImageData_result w = Inr p
         \<and> obj = [(''faceCount'', JNum (real (count d))),
                   (''brightness'', JNum (calculateBrightness p)),
                   (''processingTime'', JNum (endTime w - startTime w))]" .
  from analysis_event_shape [OF a] show "map_of obj ''isRotated'' = None" by auto
  from analysis_event_shape [OF a] show "map_of obj ''isLookingAway'' = None" by auto
  from analysis_event_shape [OF a] show "map_of obj ''gazeDirection'' = None" by auto
next
  show "processFrame opts (w \<lparr> detectFaces_result := Inr (d' \<lparr> faces := f \<rparr>) \<rparr>) s
       = processFrame opts (w \<lparr> detectFaces_result := Inr d' \<rparr>) s"
    by (rule processFrame_ignores_faces)
next
  assume "\<not> isProcessing s \<and> \<not> isDisabled s \<and> completes w \<and> \<not> over_budget w \<and> onAnalysis opts"
  then show "\<exists>obj. snd (processFrame opts w s) = [Analysis obj]"
    using on_budget_step by blast
qed

lemma calculateBrightness_grey: "calculateBrightness [(100, 100, 100, 255)] = 100"
  by (simp add: calculateBrightness_def)

lemma quick_cycle_events:
  "snd (processFrame all_handlers (cycle_taking 50) (start 1 createFrameProcessor)) =
     [Analysis [(''faceCount'', JNum 1), (''brightness'', JNum 100), (''processingTime'', JNum 50)]]"
  by (simp add: processFrame_def try_block_def captureFrame_def initCanvas_def cycle_taking_def
      ready_video_def all_handlers_def start_def createFrameProcessor_def MAX_PROCESSING_MS_def
      calculateBrightness_grey Let_def)

theorem C1_analysis_event_fields_witness:
  "snd (processFrame all_handlers (cycle_taking 50) (start 1 createFrameProcessor)) =
     [Analysis [(''faceCount'', JNum 1), (''brightness'', JNum 100), (''processingTime'', JNum 50)]]
   \<and> map_of [(''faceCount'', JNum 1), (''brightness'', JNum 100), (''processingTime'', JNum 50)]
        ''isRotated'' = None"
  using C1_analysis_event_fields [of
      "[(''faceCount'', JNum 1), (''brightness'', JNum 100), (''processingTime'', JNum 50)]"
      all_handlers "cycle_taking 50" "start 1 createFrameProcessor"]
    quick_cycle_events
  by simp

text \<open>
  The claim as the spec words it fails on a cycle where the detector reports one face that
  the rotation estimator classifies as rotated: the event emitted has no \<open>isRotated\<close>,
  \<open>isLookingAway\<close> or \<open>gazeDirection\<close> field.
\<close>

theorem C1_counterexample:
  "\<exists>obj r. snd (processFrame all_handlers (cycle_taking 50) (start 1 createFrameProcessor))
       = [Analysis obj]
     \<and> detectFaces_result (cycle_taking 50) = Inr \<lparr> count = 1, faces = [face_with_ears 40 100] \<rparr>
     \<and> analyzeRotation (Some (face_with_ears 40 100)) = Inr r \<and> rotation.isRotated r
     \<and> map_of obj ''isRotated'' = None
     \<and> map_of obj ''isLookingAway'' = None
     \<and> map_of obj ''gazeDirection'' = None"
proof -
  have "estimateYaw (Some (face_with_ears 40 100)) = Inr ''LEFT''"
    by (simp add: estimateYaw_Some face_with_ears_nth euclid_same_y origin_def)
  moreover obtain rl where "estimateRoll (Some (face_with_ears 40 100)) = Inr rl"
    using estimateRoll_total by blast
  ultimately have r: "analyzeRotation (Some (face_with_ears 40 100)) =
      Inr \<lparr> yaw = ''LEFT'', roll = rl, isRotated = True \<rparr>"
    by (simp add: analyzeRotation_def face_with_ears_nth)
  show ?thesis
    apply (rule exI [of _ "[(''faceCount'', JNum 1), (''brightness'', JNum 100),
        (''processingTime'', JNum 50)]"])
    apply (rule exI [of _ "\<lparr> yaw = ''LEFT'', roll = rl, isRotated = True \<rparr>"])
    using r quick_cycle_events by (simp add: cycle_taking_def)
qed

end
